theory Spec2Isabelle
  imports Main
begin

section \<open>Data model\<close>

text \<open>
  The objects of discord.js that the service reads, reduced to the fields the code touches.
  A nullable field is an \<open>option\<close>. \<open>customRoleId\<close> is the annotation that the second
  variant of the service (src/unnamed/part_000) writes onto the event it returns.
\<close>

record guild =
  guild_id :: string
  guild_name :: string

record role =
  role_id :: string
  role_name :: string

record discord_user =
  user_id :: string

record guild_member =
  mem_user :: discord_user
  mem_roles :: "role list"

record subscriber =
  sub_user :: discord_user
  sub_member :: "guild_member option"

record recurrence_rule =
  frequency :: int

record scheduled_event =
  ev_id :: string
  ev_name :: string
  ev_guild :: "guild option"
  scheduledStartTimestamp :: "int option"
  recurrenceRule :: "recurrence_rule option"
  customRoleId :: "string option"

text \<open>The row that \<open>database.findScheduledEvent\<close> yields, and the options of \<open>roles.create\<close>.\<close>

record db_event =
  eventId :: string
  roleId :: string

record role_options =
  opt_name :: string
  opt_mentionable :: bool
  opt_reason :: string
  opt_permissions :: "string list"

text \<open>
  The argument of \<open>Timestamp.display\<close>: the code passes either the event's numeric
  timestamp or the object \<open>new Date(0)\<close>.
\<close>

datatype time_arg = TimeNumber int | TimeDate int

text \<open>A thrown JavaScript value.\<close>

datatype exn = Error string

section \<open>Observable effects\<close>

text \<open>
  Every call that leaves the service is recorded, with its arguments and its outcome
  (\<open>Inl\<close> a thrown error, \<open>Inr\<close> the value returned), in the order the code makes it.
  The logger's messages are recorded by kind, with the names and ids the code
  interpolates into them.
\<close>

datatype log_level = LInfo | LWarn | LError

datatype log_msg =
    FailedFindGuild string string
  | AlreadyExists string
  | FailedCreateRole string
  | CreatedRole string string string
  | FailedWriteDb string string
  | WroteDb string string
  | FailedProcess
  | FailedProcessEvent string string
  | ErrorObj exn
  | FailedFetchRole string string string exn
  | FailedInitEvent
  | FailedFindRoleId string string
  | FailedFindMember string

datatype call =
    DbFind string "exn + db_event option"
  | DbCreate string string "exn + int"
  | RolesCreate guild role_options "exn + role option"
  | RolesFetch guild string "exn + role option"
  | ProcessQueues "exn + unit"
  | QueueAssignment scheduled_event discord_user "exn + unit"
  | GuildsFetch string "exn + guild"
  | EventsFetch guild "exn + (string \<times> scheduled_event) list"
  | FetchSubscribers scheduled_event "exn + (string \<times> subscriber) list"
  | MemberFetch guild_member "exn + guild_member"
  | Log log_level log_msg

section \<open>The container: the collaborators the code reaches through \<open>container\<close>\<close>

text \<open>
  None of the collaborators is defined in the files at hand, so each is a parameter: a
  function of the outside world \<open>'w\<close> that returns a value or throws, and the new world.
  \<open>affectedRows\<close> of the response of \<open>createScheduledEvent\<close> is the integer returned.
  \<open>reasonableTruncate\<close> (from ./utils) and \<open>Timestamp.display\<close> (from @sapphire/timestamp,
  applied to its pattern) are pure. \<open>processQueues\<close> and \<open>queueAssignment\<close> are called
  without \<open>await\<close>; an error of theirs is taken as thrown at the call.
\<close>

record 'w container =
  findScheduledEvent :: "string \<Rightarrow> 'w \<Rightarrow> (exn + db_event option) \<times> 'w"
  createScheduledEvent :: "string \<Rightarrow> string \<Rightarrow> 'w \<Rightarrow> (exn + int) \<times> 'w"
  roles_create :: "guild \<Rightarrow> role_options \<Rightarrow> 'w \<Rightarrow> (exn + role option) \<times> 'w"
  roles_fetch :: "guild \<Rightarrow> string \<Rightarrow> 'w \<Rightarrow> (exn + role option) \<times> 'w"
  processQueues :: "'w \<Rightarrow> (exn + unit) \<times> 'w"
  queueAssignment :: "scheduled_event \<Rightarrow> discord_user \<Rightarrow> 'w \<Rightarrow> (exn + unit) \<times> 'w"
  guilds_fetch :: "string \<Rightarrow> 'w \<Rightarrow> (exn + guild) \<times> 'w"
  scheduledEvents_fetch :: "guild \<Rightarrow> 'w \<Rightarrow> (exn + (string \<times> scheduled_event) list) \<times> 'w"
  fetchSubscribers :: "scheduled_event \<Rightarrow> 'w \<Rightarrow> (exn + (string \<times> subscriber) list) \<times> 'w"
  member_fetch :: "guild_member \<Rightarrow> 'w \<Rightarrow> (exn + guild_member) \<times> 'w"
  reasonableTruncate :: "string \<Rightarrow> string"
  timestamp_display :: "string \<Rightarrow> time_arg \<Rightarrow> string"
  env_GUILD :: string

text \<open>The state an operation runs in: the outside world and the calls made so far.\<close>

record 'w run_state =
  ext :: 'w
  calls :: "call list"

type_synonym ('w, 'a) io = "'w run_state \<Rightarrow> (exn + 'a) \<times> 'w run_state"

definition return_io :: "'a \<Rightarrow> ('w, 'a) io" where
  "return_io x s = (Inr x, s)"

text \<open>\<open>await m\<close> followed by the rest of the block: a thrown error skips the rest.\<close>

definition bind_io :: "('w, 'a) io \<Rightarrow> ('a \<Rightarrow> ('w, 'b) io) \<Rightarrow> ('w, 'b) io" where
  "bind_io m f s = (case m s of (Inl e, s') \<Rightarrow> (Inl e, s') | (Inr x, s') \<Rightarrow> f x s')"

text \<open>\<open>try { m } catch (error) { h error }\<close>.\<close>

definition try_catch :: "('w, 'a) io \<Rightarrow> (exn \<Rightarrow> ('w, 'a) io) \<Rightarrow> ('w, 'a) io" where
  "try_catch m h s = (case m s of (Inl e, s') \<Rightarrow> h e s' | (Inr x, s') \<Rightarrow> (Inr x, s'))"

text \<open>A call of a collaborator: run it on the world, record it with its outcome.\<close>

definition ext_call ::
  "('w \<Rightarrow> (exn + 'a) \<times> 'w) \<Rightarrow> ((exn + 'a) \<Rightarrow> call) \<Rightarrow> ('w, 'a) io" where
  "ext_call f mk s =
     (case f (ext s) of (r, w') \<Rightarrow> (r, s\<lparr>ext := w', calls := calls s @ [mk r]\<rparr>))"

text \<open>\<open>client.logger\<close>: it records the message and does not throw.\<close>

definition logger :: "log_level \<Rightarrow> log_msg \<Rightarrow> ('w, unit) io" where
  "logger lv msg s = (Inr (), s\<lparr>calls := calls s @ [Log lv msg]\<rparr>)"

section \<open>ScheduleEventsService (src/lib/ScheduledEventService.ts)\<close>

text \<open>
  The role name that \<open>createCustomRole\<close> computes into its local \<open>name\<close>.
  \<open>scheduledStartTimestamp || new Date(0)\<close> takes the date object when the timestamp is
  null or 0. The \<open>switch\<close> on \<open>frequency\<close> has no default, so \<open>freqString\<close> stays empty.
\<close>

definition freqString :: "int \<Rightarrow> string" where
  "freqString f =
     (if f = 0 then ''Yearly''
      else if f = 1 then ''Monthly''
      else if f = 2 then ''Weekly''
      else if f = 3 then ''Daily''
      else '''')"

definition startTime :: "scheduled_event \<Rightarrow> time_arg" where
  "startTime scheduledEvent =
     (case scheduledStartTimestamp scheduledEvent of
        None \<Rightarrow> TimeDate 0
      | Some t \<Rightarrow> if t = 0 then TimeDate 0 else TimeNumber t)"

definition customRoleName :: "'w container \<Rightarrow> scheduled_event \<Rightarrow> string" where
  "customRoleName c scheduledEvent =
     (case recurrenceRule scheduledEvent of
        None \<Rightarrow>
          reasonableTruncate c (ev_name scheduledEvent) @ '' ['' @
          timestamp_display c ''MMM-DD HH:mm'' (startTime scheduledEvent) @ '']''
      | Some rule \<Rightarrow>
          reasonableTruncate c (ev_name scheduledEvent) @ '' ['' @
          freqString (frequency rule) @ '']'')"

text \<open>The object literal passed to \<open>roles.create\<close>.\<close>

definition customRoleOptions :: "'w container \<Rightarrow> scheduled_event \<Rightarrow> role_options" where
  "customRoleOptions c scheduledEvent =
     \<lparr>opt_name = customRoleName c scheduledEvent,
      opt_mentionable = True,
      opt_reason = ''Role for the scheduled event '' @ ev_name scheduledEvent @ ''.'',
      opt_permissions = []\<rparr>"

text \<open>\<open>scheduledEvent.guild?.roles.create(...)\<close>: without a guild no call is made and the
  result is undefined.\<close>

definition createCustomRole :: "'w container \<Rightarrow> scheduled_event \<Rightarrow> ('w, role option) io" where
  "createCustomRole c scheduledEvent =
     (case ev_guild scheduledEvent of
        None \<Rightarrow> return_io None
      | Some g \<Rightarrow>
          ext_call (roles_create c g (customRoleOptions c scheduledEvent))
            (RolesCreate g (customRoleOptions c scheduledEvent)))"

definition createEventDBEntry ::
  "'w container \<Rightarrow> scheduled_event \<Rightarrow> string \<Rightarrow> ('w, bool) io" where
  "createEventDBEntry c scheduledEvent rid =
     bind_io (ext_call (createScheduledEvent c (ev_id scheduledEvent) rid)
                (DbCreate (ev_id scheduledEvent) rid))
       (\<lambda>affectedRows.
          if affectedRows > 0
          then bind_io (ext_call (processQueues c) ProcessQueues) (\<lambda>_. return_io True)
          else return_io False)"

definition processEvent :: "'w container \<Rightarrow> scheduled_event \<Rightarrow> ('w, scheduled_event option) io" where
  "processEvent c scheduledEvent =
     try_catch
       (case ev_guild scheduledEvent of
          None \<Rightarrow>
            bind_io (logger LError (FailedFindGuild (ev_name scheduledEvent) (ev_id scheduledEvent)))
              (\<lambda>_. return_io None)
        | Some _ \<Rightarrow>
            bind_io (ext_call (findScheduledEvent c (ev_id scheduledEvent))
                       (DbFind (ev_id scheduledEvent)))
              (\<lambda>dbEvent. case dbEvent of
                 Some _ \<Rightarrow>
                   bind_io (logger LInfo (AlreadyExists (ev_name scheduledEvent)))
                     (\<lambda>_. return_io (Some scheduledEvent))
               | None \<Rightarrow>
                   bind_io (createCustomRole c scheduledEvent)
                     (\<lambda>r. case r of
                        None \<Rightarrow>
                          bind_io (logger LError (FailedCreateRole (ev_name scheduledEvent)))
                            (\<lambda>_. return_io None)
                      | Some rl \<Rightarrow>
                          bind_io (logger LInfo (CreatedRole (role_name rl)
                                     (ev_name scheduledEvent) (ev_id scheduledEvent)))
                            (\<lambda>_. bind_io (createEventDBEntry c scheduledEvent (role_id rl))
                               (\<lambda>newDbEntry.
                                  if \<not> newDbEntry
                                  then bind_io (logger LError (FailedWriteDb
                                                  (ev_name scheduledEvent) (ev_id scheduledEvent)))
                                         (\<lambda>_. return_io None)
                                  else bind_io (logger LInfo (WroteDb
                                                  (ev_name scheduledEvent) (ev_id scheduledEvent)))
                                         (\<lambda>_. return_io (Some scheduledEvent)))))))
       (\<lambda>error.
          bind_io (logger LWarn FailedProcess)
            (\<lambda>_. bind_io (logger LError (ErrorObj error)) (\<lambda>_. return_io None)))"

text \<open>The \<open>for ... of events\<close> loop of \<open>batchProcessEvents\<close>; a \<open>Map\<close> iterates in insertion order,
  so the events are a list of entries.\<close>

fun batchProcessEvents_loop ::
  "'w container \<Rightarrow> (string \<times> scheduled_event) list \<Rightarrow> scheduled_event option list \<Rightarrow>
   ('w, scheduled_event option list) io" where
  "batchProcessEvents_loop c [] result = return_io result"
| "batchProcessEvents_loop c ((key, event) # rest) result =
     bind_io
       (try_catch
          (bind_io (processEvent c event)
             (\<lambda>processedEvent. return_io (result @ [processedEvent])))
          (\<lambda>error.
             bind_io (logger LWarn (FailedProcessEvent (ev_name event) (ev_id event)))
               (\<lambda>_. bind_io (logger LError (ErrorObj error))
                  (\<lambda>_. return_io (result @ [None])))))
       (\<lambda>result'. batchProcessEvents_loop c rest result')"

definition batchProcessEvents ::
  "'w container \<Rightarrow> (string \<times> scheduled_event) list \<Rightarrow> ('w, scheduled_event option list) io" where
  "batchProcessEvents c events = batchProcessEvents_loop c events []"

text \<open>\<open>!x\<close> for a value of type \<open>string | null\<close>: null and the empty string are falsy.\<close>

definition falsy :: "string option \<Rightarrow> bool" where
  "falsy x = (x = None \<or> x = Some [])"

text \<open>\<open>dbEvent?.roleId || null\<close>. There is no \<open>try\<close> around the lookup.\<close>

definition getEventRoleId :: "'w container \<Rightarrow> string \<Rightarrow> ('w, string option) io" where
  "getEventRoleId c eid =
     bind_io (ext_call (findScheduledEvent c eid) (DbFind eid))
       (\<lambda>dbEvent. return_io
          (case dbEvent of
             None \<Rightarrow> None
           | Some d \<Rightarrow> if falsy (Some (roleId d)) then None else Some (roleId d)))"

definition getEventRole :: "'w container \<Rightarrow> scheduled_event \<Rightarrow> ('w, role option) io" where
  "getEventRole c scheduledEvent =
     (case ev_guild scheduledEvent of
        None \<Rightarrow> return_io None
      | Some g \<Rightarrow>
          bind_io (getEventRoleId c (ev_id scheduledEvent))
            (\<lambda>rid.
               if falsy rid then return_io None
               else try_catch
                      (ext_call (roles_fetch c g (the rid)) (RolesFetch g (the rid)))
                      (\<lambda>error.
                         bind_io (logger LError (FailedFetchRole (the rid)
                                    (ev_name scheduledEvent) (ev_id scheduledEvent) error))
                           (\<lambda>_. return_io None))))"

section \<open>The second variant of the service (src/unnamed/part_000)\<close>

text \<open>
  It differs from the first in \<open>processEvent\<close>, which sets \<open>customRoleId\<close> on the event it
  returns, and has no \<open>getEventRoleId\<close> and \<open>getEventRole\<close>. Its \<open>createCustomRole\<close> and
  \<open>createEventDBEntry\<close> are those of the first, line for line.
\<close>

definition processEvent_p0 ::
  "'w container \<Rightarrow> scheduled_event \<Rightarrow> ('w, scheduled_event option) io" where
  "processEvent_p0 c scheduledEvent =
     try_catch
       (case ev_guild scheduledEvent of
          None \<Rightarrow>
            bind_io (logger LError (FailedFindGuild (ev_name scheduledEvent) (ev_id scheduledEvent)))
              (\<lambda>_. return_io None)
        | Some _ \<Rightarrow>
            bind_io (ext_call (findScheduledEvent c (ev_id scheduledEvent))
                       (DbFind (ev_id scheduledEvent)))
              (\<lambda>dbEntry. case dbEntry of
                 Some d \<Rightarrow>
                   bind_io (logger LInfo (AlreadyExists (ev_name scheduledEvent)))
                     (\<lambda>_. return_io (Some (scheduledEvent\<lparr>customRoleId := Some (roleId d)\<rparr>)))
               | None \<Rightarrow>
                   bind_io (createCustomRole c scheduledEvent)
                     (\<lambda>r. case r of
                        None \<Rightarrow>
                          bind_io (logger LError (FailedCreateRole (ev_name scheduledEvent)))
                            (\<lambda>_. return_io None)
                      | Some rl \<Rightarrow>
                          bind_io (logger LInfo (CreatedRole (role_name rl)
                                     (ev_name scheduledEvent) (ev_id scheduledEvent)))
                            (\<lambda>_. bind_io (createEventDBEntry c scheduledEvent (role_id rl))
                               (\<lambda>newDbEntry.
                                  if \<not> newDbEntry
                                  then bind_io (logger LError (FailedWriteDb
                                                  (ev_name scheduledEvent) (ev_id scheduledEvent)))
                                         (\<lambda>_. return_io None)
                                  else bind_io (logger LInfo (WroteDb
                                                  (ev_name scheduledEvent) (ev_id scheduledEvent)))
                                         (\<lambda>_. return_io
                                            (Some (scheduledEvent\<lparr>customRoleId :=
                                                     Some (role_id rl)\<rparr>))))))))
       (\<lambda>error.
          bind_io (logger LWarn FailedProcess)
            (\<lambda>_. bind_io (logger LError (ErrorObj error)) (\<lambda>_. return_io None)))"

fun batchProcessEvents_loop_p0 ::
  "'w container \<Rightarrow> (string \<times> scheduled_event) list \<Rightarrow> scheduled_event option list \<Rightarrow>
   ('w, scheduled_event option list) io" where
  "batchProcessEvents_loop_p0 c [] result = return_io result"
| "batchProcessEvents_loop_p0 c ((key, event) # rest) result =
     bind_io
       (try_catch
          (bind_io (processEvent_p0 c event)
             (\<lambda>customEvent. return_io (result @ [customEvent])))
          (\<lambda>error.
             bind_io (logger LWarn (FailedProcessEvent (ev_name event) (ev_id event)))
               (\<lambda>_. bind_io (logger LError (ErrorObj error))
                  (\<lambda>_. return_io (result @ [None])))))
       (\<lambda>result'. batchProcessEvents_loop_p0 c rest result')"

definition batchProcessEvents_p0 ::
  "'w container \<Rightarrow> (string \<times> scheduled_event) list \<Rightarrow> ('w, scheduled_event option list) io" where
  "batchProcessEvents_p0 c events = batchProcessEvents_loop_p0 c events []"

section \<open>The startup pass (src/listeners/event-roles/eventInit.ts)\<close>

text \<open>The inner loop of \<open>run\<close>, over the subscribers of one event. \<open>queueAssignment\<close> is
  called with the member that \<open>member.fetch()\<close> returned.\<close>

fun run_subscribers ::
  "'w container \<Rightarrow> guild \<Rightarrow> scheduled_event \<Rightarrow> string \<Rightarrow> (string \<times> subscriber) list \<Rightarrow>
   ('w, unit) io" where
  "run_subscribers c acmguild event rid [] = return_io ()"
| "run_subscribers c acmguild event rid ((userID, sub) # rest) =
     (case sub_member sub of
        None \<Rightarrow>
          bind_io (logger LError (FailedFindMember (guild_name acmguild)))
            (\<lambda>_. run_subscribers c acmguild event rid rest)
      | Some m \<Rightarrow>
          bind_io (ext_call (member_fetch c m) (MemberFetch m))
            (\<lambda>member.
               bind_io
                 (if find (\<lambda>r. role_id r = rid) (mem_roles member) = None
                  then ext_call (queueAssignment c event (mem_user member))
                         (QueueAssignment event (mem_user member))
                  else return_io ())
                 (\<lambda>_. run_subscribers c acmguild event rid rest)))"

text \<open>The outer loop of \<open>run\<close>, over the output of the batch.\<close>

fun run_events ::
  "'w container \<Rightarrow> guild \<Rightarrow> scheduled_event option list \<Rightarrow> ('w, unit) io" where
  "run_events c acmguild [] = return_io ()"
| "run_events c acmguild (None # rest) =
     bind_io (logger LError FailedInitEvent) (\<lambda>_. run_events c acmguild rest)"
| "run_events c acmguild (Some event # rest) =
     bind_io (getEventRoleId c (ev_id event))
       (\<lambda>rid.
          if falsy rid
          then bind_io (logger LError (FailedFindRoleId (ev_name event) (ev_id event)))
                 (\<lambda>_. run_events c acmguild rest)
          else bind_io (ext_call (fetchSubscribers c event) (FetchSubscribers event))
                 (\<lambda>subscribers.
                    bind_io (run_subscribers c acmguild event (the rid) subscribers)
                      (\<lambda>_. run_events c acmguild rest)))"

definition run :: "'w container \<Rightarrow> ('w, unit) io" where
  "run c =
     bind_io (ext_call (guilds_fetch c (env_GUILD c)) (GuildsFetch (env_GUILD c)))
       (\<lambda>acmguild.
          bind_io (ext_call (scheduledEvents_fetch c acmguild) (EventsFetch acmguild))
            (\<lambda>events.
               bind_io (batchProcessEvents c events)
                 (\<lambda>processedEvents. run_events c acmguild processedEvents)))"

section \<open>Reading the record of calls\<close>

text \<open>The calls an operation adds when it runs from state \<open>s\<close>.\<close>

definition new_calls :: "('w, 'a) io \<Rightarrow> 'w run_state \<Rightarrow> call list" where
  "new_calls m s = drop (length (calls s)) (calls (snd (m s)))"

fun isRolesCreate :: "call \<Rightarrow> bool" where
  "isRolesCreate (RolesCreate g opts r) = True"
| "isRolesCreate other = False"

fun isDbCreate :: "call \<Rightarrow> bool" where
  "isDbCreate (DbCreate eid rid r) = True"
| "isDbCreate other = False"

fun isProcessQueues :: "call \<Rightarrow> bool" where
  "isProcessQueues (ProcessQueues r) = True"
| "isProcessQueues other = False"

text \<open>A write of the store that reported at least one affected row.\<close>

fun isAckedWrite :: "call \<Rightarrow> bool" where
  "isAckedWrite (DbCreate eid rid (Inr n)) = (n > 0)"
| "isAckedWrite other = False"

text \<open>A call of a collaborator that threw.\<close>

fun isThrown :: "call \<Rightarrow> bool" where
  "isThrown (DbFind eid (Inl err)) = True"
| "isThrown (DbCreate eid rid (Inl err)) = True"
| "isThrown (RolesCreate g opts (Inl err)) = True"
| "isThrown (RolesFetch g rid (Inl err)) = True"
| "isThrown (ProcessQueues (Inl err)) = True"
| "isThrown (QueueAssignment e u (Inl err)) = True"
| "isThrown (GuildsFetch gid (Inl err)) = True"
| "isThrown (EventsFetch g (Inl err)) = True"
| "isThrown (FetchSubscribers e (Inl err)) = True"
| "isThrown (MemberFetch m (Inl err)) = True"
| "isThrown other = False"

text \<open>The assignment intents among a list of calls (every call of \<open>queueAssignment\<close>,
  whatever it returned), the members that \<open>member.fetch()\<close> returned, and the members it
  was called on, each in call order.\<close>

fun intents_of :: "call list \<Rightarrow> (scheduled_event \<times> discord_user) list" where
  "intents_of [] = []"
| "intents_of (QueueAssignment e u r # cs) = (e, u) # intents_of cs"
| "intents_of (other # cs) = intents_of cs"

fun fetched_members :: "call list \<Rightarrow> guild_member list" where
  "fetched_members [] = []"
| "fetched_members (MemberFetch m (Inr m') # cs) = m' # fetched_members cs"
| "fetched_members (other # cs) = fetched_members cs"

fun fetch_args :: "call list \<Rightarrow> guild_member list" where
  "fetch_args [] = []"
| "fetch_args (MemberFetch m r # cs) = m # fetch_args cs"
| "fetch_args (other # cs) = fetch_args cs"

definition holds_role :: "string \<Rightarrow> guild_member \<Rightarrow> bool" where
  "holds_role rid m = (rid \<in> role_id ` set (mem_roles m))"

section \<open>Notions used in the statements\<close>

text \<open>Two calls of \<open>processEvent\<close> (second variant) for the same event, in sequence.\<close>

definition resolve_twice_p0 ::
  "'w container \<Rightarrow> scheduled_event \<Rightarrow>
   ('w, scheduled_event option \<times> scheduled_event option) io" where
  "resolve_twice_p0 c e =
     bind_io (processEvent_p0 c e)
       (\<lambda>first. bind_io (processEvent_p0 c e) (\<lambda>second. return_io (first, second)))"


text \<open>
  What is assumed of a persistence store, where \<open>recs\<close> reads the persisted records off
  the world. A lookup changes no record and
  answers "none" only for a key without a record; a write changes no record under another
  key (under its own key it may do anything); the other collaborators change no record.
\<close>

definition store_laws :: "'w container \<Rightarrow> ('w \<Rightarrow> string \<Rightarrow> string option) \<Rightarrow> bool" where
  "store_laws c recs =
     ((\<forall>eid w. recs (snd (findScheduledEvent c eid w)) = recs w) \<and>
      (\<forall>eid w. fst (findScheduledEvent c eid w) = Inr None \<longrightarrow> recs w eid = None) \<and>
      (\<forall>eid rid w i. i \<noteq> eid \<longrightarrow> recs (snd (createScheduledEvent c eid rid w)) i = recs w i) \<and>
      (\<forall>g opts w. recs (snd (roles_create c g opts w)) = recs w) \<and>
      (\<forall>g rid w. recs (snd (roles_fetch c g rid w)) = recs w) \<and>
      (\<forall>w. recs (snd (processQueues c w)) = recs w) \<and>
      (\<forall>e u w. recs (snd (queueAssignment c e u w)) = recs w) \<and>
      (\<forall>gid w. recs (snd (guilds_fetch c gid w)) = recs w) \<and>
      (\<forall>g w. recs (snd (scheduledEvents_fetch c g w)) = recs w) \<and>
      (\<forall>e w. recs (snd (fetchSubscribers c e w)) = recs w) \<and>
      (\<forall>m w. recs (snd (member_fetch c m w)) = recs w))"

text \<open>
  What is assumed in addition of a store that keeps what it acknowledged: a lookup that
  finds a record gives the role id persisted under that key, and after a write that
  reports at least one row the pair written is the record under its key.
\<close>

definition store_persists :: "'w container \<Rightarrow> ('w \<Rightarrow> string \<Rightarrow> string option) \<Rightarrow> bool" where
  "store_persists c recs =
     ((\<forall>eid w d. fst (findScheduledEvent c eid w) = Inr (Some d) \<longrightarrow>
         recs w eid = Some (roleId d)) \<and>
      (\<forall>eid rid w n. fst (createScheduledEvent c eid rid w) = Inr n \<and> 0 < n \<longrightarrow>
         recs (snd (createScheduledEvent c eid rid w)) eid = Some rid))"

section \<open>A reference world\<close>

text \<open>
  Modelled from the spec: the collaborators of section 6 of the specification, whose code
  is not in the files at hand. The persistence store is a key-value store keyed by event
  id; a write that succeeds stores the pair whatever was there before, so nothing in the
  store itself protects a record. The guild holds a list of roles; the work queue counts
  the drain signals and keeps the intents. \<open>plan\<close> says, for the n-th call of a
  collaborator, whether it works, throws, or degrades (a write that reports zero rows, a
  role creation that returns nothing).
\<close>

datatype fault = NoFault | Throws | Degraded

record world =
  store :: "string \<Rightarrow> string option"
  guild_roles :: "role list"
  minted :: nat
  home :: guild
  home_events :: "(string \<times> scheduled_event) list"
  subscribers_of :: "string \<Rightarrow> (string \<times> subscriber) list"
  held :: "string \<Rightarrow> role list"
  drains :: nat
  intents :: "(scheduled_event \<times> discord_user) list"
  plan :: "nat \<Rightarrow> fault"
  tick :: nat

definition advance :: "world \<Rightarrow> world" where
  "advance w = w\<lparr>tick := Suc (tick w)\<rparr>"

definition mint :: "nat \<Rightarrow> string" where
  "mint n = CHR ''R'' # replicate n (CHR ''i'')"

definition ref_findScheduledEvent :: "string \<Rightarrow> world \<Rightarrow> (exn + db_event option) \<times> world" where
  "ref_findScheduledEvent eid w =
     (case plan w (tick w) of
        Throws \<Rightarrow> (Inl (Error ''store unavailable''), advance w)
      | _ \<Rightarrow> (Inr (case store w eid of
                     None \<Rightarrow> None
                   | Some r \<Rightarrow> Some \<lparr>eventId = eid, roleId = r\<rparr>), advance w))"

definition ref_createScheduledEvent :: "string \<Rightarrow> string \<Rightarrow> world \<Rightarrow> (exn + int) \<times> world" where
  "ref_createScheduledEvent eid rid w =
     (case plan w (tick w) of
        Throws \<Rightarrow> (Inl (Error ''store unavailable''), advance w)
      | Degraded \<Rightarrow> (Inr 0, advance w)
      | NoFault \<Rightarrow> (Inr 1, advance (w\<lparr>store := (store w)(eid \<mapsto> rid)\<rparr>)))"

definition ref_roles_create :: "guild \<Rightarrow> role_options \<Rightarrow> world \<Rightarrow> (exn + role option) \<times> world" where
  "ref_roles_create g opts w =
     (case plan w (tick w) of
        Throws \<Rightarrow> (Inl (Error ''role creation failed''), advance w)
      | Degraded \<Rightarrow> (Inr None, advance w)
      | NoFault \<Rightarrow>
          (let r = \<lparr>role_id = mint (minted w), role_name = opt_name opts\<rparr>
           in (Inr (Some r),
               advance (w\<lparr>guild_roles := guild_roles w @ [r], minted := Suc (minted w)\<rparr>))))"

definition ref_roles_fetch :: "guild \<Rightarrow> string \<Rightarrow> world \<Rightarrow> (exn + role option) \<times> world" where
  "ref_roles_fetch g rid w =
     (case plan w (tick w) of
        Throws \<Rightarrow> (Inl (Error ''role fetch failed''), advance w)
      | _ \<Rightarrow> (Inr (find (\<lambda>r. role_id r = rid) (guild_roles w)), advance w))"

definition ref_processQueues :: "world \<Rightarrow> (exn + unit) \<times> world" where
  "ref_processQueues w =
     (case plan w (tick w) of
        Throws \<Rightarrow> (Inl (Error ''queue failed''), advance w)
      | _ \<Rightarrow> (Inr (), advance (w\<lparr>drains := Suc (drains w)\<rparr>)))"

definition ref_queueAssignment ::
  "scheduled_event \<Rightarrow> discord_user \<Rightarrow> world \<Rightarrow> (exn + unit) \<times> world" where
  "ref_queueAssignment e u w =
     (case plan w (tick w) of
        Throws \<Rightarrow> (Inl (Error ''queue failed''), advance w)
      | _ \<Rightarrow> (Inr (), advance (w\<lparr>intents := intents w @ [(e, u)]\<rparr>)))"

definition ref_guilds_fetch :: "string \<Rightarrow> world \<Rightarrow> (exn + guild) \<times> world" where
  "ref_guilds_fetch gid w =
     (case plan w (tick w) of
        Throws \<Rightarrow> (Inl (Error ''guild fetch failed''), advance w)
      | _ \<Rightarrow> if gid = guild_id (home w) then (Inr (home w), advance w)
             else (Inl (Error ''Unknown Guild''), advance w))"

definition ref_scheduledEvents_fetch ::
  "guild \<Rightarrow> world \<Rightarrow> (exn + (string \<times> scheduled_event) list) \<times> world" where
  "ref_scheduledEvents_fetch g w =
     (case plan w (tick w) of
        Throws \<Rightarrow> (Inl (Error ''event fetch failed''), advance w)
      | _ \<Rightarrow> (Inr (home_events w), advance w))"

definition ref_fetchSubscribers ::
  "scheduled_event \<Rightarrow> world \<Rightarrow> (exn + (string \<times> subscriber) list) \<times> world" where
  "ref_fetchSubscribers e w =
     (case plan w (tick w) of
        Throws \<Rightarrow> (Inl (Error ''subscriber fetch failed''), advance w)
      | _ \<Rightarrow> (Inr (subscribers_of w (ev_id e)), advance w))"

definition ref_member_fetch :: "guild_member \<Rightarrow> world \<Rightarrow> (exn + guild_member) \<times> world" where
  "ref_member_fetch m w =
     (case plan w (tick w) of
        Throws \<Rightarrow> (Inl (Error ''member fetch failed''), advance w)
      | _ \<Rightarrow> (Inr (m\<lparr>mem_roles := held w (user_id (mem_user m))\<rparr>), advance w))"

text \<open>
  Modelled from the spec: \<open>truncate\<close> caps the event name so that name and suffix stay
  under the role-name limit of 100 characters; the cap taken here is 80.
\<close>

definition ref_reasonableTruncate :: "string \<Rightarrow> string" where
  "ref_reasonableTruncate str = take 80 str"

text \<open>
  \<open>Timestamp\<close> of @sapphire/timestamp is a library, not in the files at hand. It is modelled
  on the library for the one pattern the code uses, \<open>MMM-DD HH:mm\<close>: the token \<open>MMM\<close> prints
  the full name of the month, \<open>DD\<close> the day of the month on two digits, \<open>HH\<close> the hour
  from 00 to 23 and \<open>mm\<close> the minute, of the time read in the zone of the process
  (\<open>display\<close>, not \<open>displayUTC\<close>). \<open>zone\<close> is the offset of that zone from UTC in minutes.
\<close>

definition pad2 :: "int \<Rightarrow> string" where
  "pad2 n = [''0123456789'' ! nat (n div 10 mod 10), ''0123456789'' ! nat (n mod 10)]"

definition month_name :: "int \<Rightarrow> string" where
  "month_name m =
     [''January'', ''February'', ''March'', ''April'', ''May'', ''June'',
      ''July'', ''August'', ''September'', ''October'', ''November'', ''December'']
       ! nat ((m - 1) mod 12)"

text \<open>Month and day of the month of a count of days since 1 January 1970.\<close>

definition month_day :: "int \<Rightarrow> int \<times> int" where
  "month_day days =
     (let z = days + 719468;
          doe = z mod 146097;
          yoe = (doe - doe div 1460 + doe div 36524 - doe div 146096) div 365;
          doy = doe - (365 * yoe + yoe div 4 - yoe div 100);
          mp = (5 * doy + 2) div 153;
          d = doy - (153 * mp + 2) div 5 + 1;
          m = (if mp < 10 then mp + 3 else mp - 9)
      in (m, d))"

definition millis :: "time_arg \<Rightarrow> int" where
  "millis t = (case t of TimeNumber n \<Rightarrow> n | TimeDate n \<Rightarrow> n)"

definition local_millis :: "int \<Rightarrow> time_arg \<Rightarrow> int" where
  "local_millis zone t = millis t + zone * 60000"

definition display_in_zone :: "int \<Rightarrow> string \<Rightarrow> time_arg \<Rightarrow> string" where
  "display_in_zone zone pattern t =
     (if pattern = ''MMM-DD HH:mm''
      then month_name (fst (month_day (local_millis zone t div 86400000))) @ ''-'' @
           pad2 (snd (month_day (local_millis zone t div 86400000))) @ '' '' @
           pad2 (local_millis zone t div 3600000 mod 24) @ '':'' @
           pad2 (local_millis zone t div 60000 mod 60)
      else [])"

text \<open>The process of the reference world runs in UTC.\<close>

definition ref_timestamp_display :: "string \<Rightarrow> time_arg \<Rightarrow> string" where
  "ref_timestamp_display = display_in_zone 0"

definition ref_container :: "world container" where
  "ref_container =
     \<lparr>findScheduledEvent = ref_findScheduledEvent,
      createScheduledEvent = ref_createScheduledEvent,
      roles_create = ref_roles_create,
      roles_fetch = ref_roles_fetch,
      processQueues = ref_processQueues,
      queueAssignment = ref_queueAssignment,
      guilds_fetch = ref_guilds_fetch,
      scheduledEvents_fetch = ref_scheduledEvents_fetch,
      fetchSubscribers = ref_fetchSubscribers,
      member_fetch = ref_member_fetch,
      reasonableTruncate = ref_reasonableTruncate,
      timestamp_display = ref_timestamp_display,
      env_GUILD = ''G''\<rparr>"

section \<open>Example events and worlds\<close>

text \<open>A small world: guild \<open>G\<close>, nothing stored, no roles, no faults.\<close>

definition acm :: guild where
  "acm = \<lparr>guild_id = ''G'', guild_name = ''ACM''\<rparr>"

definition world0 :: world where
  "world0 =
     \<lparr>store = (\<lambda>k. None), guild_roles = [], minted = 0, home = acm, home_events = [],
      subscribers_of = (\<lambda>k. []), held = (\<lambda>k. []), drains = 0, intents = [],
      plan = (\<lambda>n. NoFault), tick = 0\<rparr>"

definition start :: "world \<Rightarrow> world run_state" where
  "start w = \<lparr>ext = w, calls = []\<rparr>"

definition standup :: scheduled_event where
  "standup =
     \<lparr>ev_id = ''e1'', ev_name = ''Standup'', ev_guild = Some acm,
      scheduledStartTimestamp = Some 1741024800000,
      recurrenceRule = Some \<lparr>frequency = 2\<rparr>, customRoleId = None\<rparr>"

definition game_night :: scheduled_event where
  "game_night =
     \<lparr>ev_id = ''e2'', ev_name = ''Board Game Night'', ev_guild = Some acm,
      scheduledStartTimestamp = Some 1741024800000,
      recurrenceRule = None, customRoleId = None\<rparr>"

text \<open>The world after \<open>standup\<close> was processed once: its record and its role exist.\<close>

definition standup_record :: db_event where
  "standup_record = \<lparr>eventId = ''e1'', roleId = ''R''\<rparr>"

definition standup_role :: role where
  "standup_role = \<lparr>role_id = ''R'', role_name = ''Standup [Weekly]''\<rparr>"

definition world_recorded :: world where
  "world_recorded =
     world0\<lparr>store := (\<lambda>k. if k = ''e1'' then Some ''R'' else None),
            guild_roles := [standup_role], minted := 1\<rparr>"

text \<open>A batch of three events whose second has no guild.\<close>

definition guildless :: scheduled_event where
  "guildless =
     \<lparr>ev_id = ''e0'', ev_name = ''Lost'', ev_guild = None,
      scheduledStartTimestamp = None, recurrenceRule = None, customRoleId = None\<rparr>"

definition batch3 :: "(string \<times> scheduled_event) list" where
  "batch3 = [(''e1'', standup), (''e0'', guildless), (''e2'', game_night)]"

definition batch2 :: "(string \<times> scheduled_event) list" where
  "batch2 = [(''e1'', standup), (''e2'', game_night)]"

text \<open>Worlds in which the third call of a collaborator (the write of the record) reports
  zero rows, and in which the second (the creation of the role) throws or returns
  nothing.\<close>

definition world_zero_rows :: world where
  "world_zero_rows = world0\<lparr>plan := (\<lambda>n. if n = 2 then Degraded else NoFault)\<rparr>"

definition world_create_throws :: world where
  "world_create_throws = world0\<lparr>plan := (\<lambda>n. if n = 1 then Throws else NoFault)\<rparr>"

definition world_create_nothing :: world where
  "world_create_nothing = world0\<lparr>plan := (\<lambda>n. if n = 1 then Degraded else NoFault)\<rparr>"

text \<open>\<open>standup\<close> with a frequency outside the four known ones, and \<open>game_night\<close> without a
  start time and with start time 0.\<close>

definition standup_odd :: scheduled_event where
  "standup_odd = standup\<lparr>recurrenceRule := Some \<lparr>frequency = 7\<rparr>\<rparr>"

definition game_night_unset :: scheduled_event where
  "game_night_unset = game_night\<lparr>scheduledStartTimestamp := None\<rparr>"

definition game_night_zero :: scheduled_event where
  "game_night_zero = game_night\<lparr>scheduledStartTimestamp := Some 0\<rparr>"

text \<open>The reference container in a process whose zone is eight hours behind UTC.\<close>

definition ref_container_west :: "world container" where
  "ref_container_west = ref_container\<lparr>timestamp_display := display_in_zone (- 480)\<rparr>"

text \<open>A world in which every call of a collaborator throws.\<close>

definition world_down :: world where
  "world_down = world0\<lparr>plan := (\<lambda>n. Throws)\<rparr>"

text \<open>A world in which the role fetch (the second call) throws, \<open>standup\<close> being recorded.\<close>

definition world_fetch_throws :: world where
  "world_fetch_throws = world_recorded\<lparr>plan := (\<lambda>n. if n = 1 then Throws else NoFault)\<rparr>"







text \<open>The world in which \<open>standup\<close> is recorded with role \<open>R\<close> and the guild no longer has
  that role.\<close>

definition world_role_deleted :: world where
  "world_role_deleted = world_recorded\<lparr>guild_roles := []\<rparr>"

section \<open>Basic facts\<close>

lemmas io_defs = return_io_def bind_io_def try_catch_def ext_call_def logger_def

lemma new_calls_eq: "calls (snd (m s)) = calls s @ d \<Longrightarrow> new_calls m s = d"
  by (simp add: new_calls_def)

lemma processEvent_returns: "\<exists>r. fst (processEvent c e s) = Inr r"
  unfolding processEvent_def createCustomRole_def createEventDBEntry_def io_defs
  by (auto split: option.splits sum.splits prod.splits if_splits)

lemma processEvent_p0_returns: "\<exists>r. fst (processEvent_p0 c e s) = Inr r"
  unfolding processEvent_p0_def createCustomRole_def createEventDBEntry_def io_defs
  by (auto split: option.splits sum.splits prod.splits if_splits)

lemma processEvent_calls:
  "\<exists>d. calls (snd (processEvent c e s)) = calls s @ d \<and>
       length (filter isRolesCreate d) \<le> 1 \<and>
       length (filter isProcessQueues d) = length (filter isAckedWrite d)"
  unfolding processEvent_def createCustomRole_def createEventDBEntry_def io_defs
  by (auto split: option.splits sum.splits prod.splits if_splits)

lemma processEvent_p0_calls:
  "\<exists>d. calls (snd (processEvent_p0 c e s)) = calls s @ d \<and>
       length (filter isRolesCreate d) \<le> 1 \<and>
       length (filter isProcessQueues d) = length (filter isAckedWrite d)"
  unfolding processEvent_p0_def createCustomRole_def createEventDBEntry_def io_defs
  by (auto split: option.splits sum.splits prod.splits if_splits)

lemma processEvent_found:
  assumes "ev_guild e = Some g"
    and "fst (findScheduledEvent c (ev_id e) (ext s)) = Inr (Some d)"
  shows "processEvent c e s =
     (Inr (Some e),
      s\<lparr>ext := snd (findScheduledEvent c (ev_id e) (ext s)),
        calls := calls s @ [DbFind (ev_id e) (Inr (Some d)),
                            Log LInfo (AlreadyExists (ev_name e))]\<rparr>)"
  using assms
  by (cases "findScheduledEvent c (ev_id e) (ext s)") (simp add: processEvent_def io_defs)

lemma processEvent_p0_found:
  assumes "ev_guild e = Some g"
    and "fst (findScheduledEvent c (ev_id e) (ext s)) = Inr (Some d)"
  shows "processEvent_p0 c e s =
     (Inr (Some (e\<lparr>customRoleId := Some (roleId d)\<rparr>)),
      s\<lparr>ext := snd (findScheduledEvent c (ev_id e) (ext s)),
        calls := calls s @ [DbFind (ev_id e) (Inr (Some d)),
                            Log LInfo (AlreadyExists (ev_name e))]\<rparr>)"
  using assms
  by (cases "findScheduledEvent c (ev_id e) (ext s)") (simp add: processEvent_p0_def io_defs)

section \<open>The laws of the store, unfolded\<close>

lemma laws_find:
  assumes "store_laws c recs" and "findScheduledEvent c eid w = (r, w')"
  shows "recs w' = recs w"
proof -
  from assms(1) have "recs (snd (findScheduledEvent c eid w)) = recs w"
    by (simp add: store_laws_def)
  then show ?thesis by (simp add: assms(2))
qed

lemma laws_find_none:
  assumes "store_laws c recs" and "findScheduledEvent c eid w = (Inr None, w')"
  shows "recs w eid = None"
proof -
  from assms(1)
  have "fst (findScheduledEvent c eid w) = Inr None \<longrightarrow> recs w eid = None"
    by (simp add: store_laws_def)
  then show ?thesis by (simp add: assms(2))
qed

lemma laws_create:
  assumes "store_laws c recs" and "createScheduledEvent c eid rid w = (r, w')" and "i \<noteq> eid"
  shows "recs w' i = recs w i"
proof -
  from assms(1)
  have "i \<noteq> eid \<longrightarrow> recs (snd (createScheduledEvent c eid rid w)) i = recs w i"
    by (simp add: store_laws_def)
  then show ?thesis by (simp add: assms(2,3))
qed

lemma laws_roles_create:
  assumes "store_laws c recs" and "roles_create c g opts w = (r, w')"
  shows "recs w' = recs w"
proof -
  from assms(1) have "recs (snd (roles_create c g opts w)) = recs w"
    by (simp add: store_laws_def)
  then show ?thesis by (simp add: assms(2))
qed

lemma laws_roles_fetch:
  assumes "store_laws c recs" and "roles_fetch c g rid w = (r, w')"
  shows "recs w' = recs w"
proof -
  from assms(1) have "recs (snd (roles_fetch c g rid w)) = recs w"
    by (simp add: store_laws_def)
  then show ?thesis by (simp add: assms(2))
qed

lemma laws_processQueues:
  assumes "store_laws c recs" and "processQueues c w = (r, w')"
  shows "recs w' = recs w"
proof -
  from assms(1) have "recs (snd (processQueues c w)) = recs w"
    by (simp add: store_laws_def)
  then show ?thesis by (simp add: assms(2))
qed

lemma laws_queueAssignment:
  assumes "store_laws c recs" and "queueAssignment c e u w = (r, w')"
  shows "recs w' = recs w"
proof -
  from assms(1) have "recs (snd (queueAssignment c e u w)) = recs w"
    by (simp add: store_laws_def)
  then show ?thesis by (simp add: assms(2))
qed

lemma laws_guilds_fetch:
  assumes "store_laws c recs" and "guilds_fetch c gid w = (r, w')"
  shows "recs w' = recs w"
proof -
  from assms(1) have "recs (snd (guilds_fetch c gid w)) = recs w"
    by (simp add: store_laws_def)
  then show ?thesis by (simp add: assms(2))
qed

lemma laws_scheduledEvents_fetch:
  assumes "store_laws c recs" and "scheduledEvents_fetch c g w = (r, w')"
  shows "recs w' = recs w"
proof -
  from assms(1) have "recs (snd (scheduledEvents_fetch c g w)) = recs w"
    by (simp add: store_laws_def)
  then show ?thesis by (simp add: assms(2))
qed

lemma laws_fetchSubscribers:
  assumes "store_laws c recs" and "fetchSubscribers c e w = (r, w')"
  shows "recs w' = recs w"
proof -
  from assms(1) have "recs (snd (fetchSubscribers c e w)) = recs w"
    by (simp add: store_laws_def)
  then show ?thesis by (simp add: assms(2))
qed

lemma laws_member_fetch:
  assumes "store_laws c recs" and "member_fetch c m w = (r, w')"
  shows "recs w' = recs w"
proof -
  from assms(1) have "recs (snd (member_fetch c m w)) = recs w"
    by (simp add: store_laws_def)
  then show ?thesis by (simp add: assms(2))
qed

lemma persists_find:
  assumes "store_persists c recs" and "findScheduledEvent c eid w = (Inr (Some d), w')"
  shows "recs w eid = Some (roleId d)"
proof -
  from assms(1)
  have "fst (findScheduledEvent c eid w) = Inr (Some d) \<longrightarrow> recs w eid = Some (roleId d)"
    by (simp add: store_persists_def)
  then show ?thesis by (simp add: assms(2))
qed

lemma persists_create:
  assumes "store_persists c recs" and "createScheduledEvent c eid rid w = (Inr n, w')"
    and "0 < n"
  shows "recs w' eid = Some rid"
proof -
  from assms(1)
  have "fst (createScheduledEvent c eid rid w) = Inr n \<and> 0 < n \<longrightarrow>
          recs (snd (createScheduledEvent c eid rid w)) eid = Some rid"
    by (simp add: store_persists_def)
  then show ?thesis by (simp add: assms(2,3))
qed

lemma ref_store_laws: "store_laws ref_container store"
  unfolding store_laws_def
proof (intro conjI allI impI)
  fix eid w
  show "store (snd (findScheduledEvent ref_container eid w)) = store w"
    by (simp add: ref_container_def ref_findScheduledEvent_def advance_def split: fault.splits)
  show "store w eid = None" if "fst (findScheduledEvent ref_container eid w) = Inr None"
    using that
    by (simp add: ref_container_def ref_findScheduledEvent_def split: fault.splits option.splits)
next
  fix eid rid w and i :: string
  assume "i \<noteq> eid"
  then show "store (snd (createScheduledEvent ref_container eid rid w)) i = store w i"
    by (simp add: ref_container_def ref_createScheduledEvent_def advance_def split: fault.splits)
next
  fix g opts w
  show "store (snd (roles_create ref_container g opts w)) = store w"
    by (simp add: ref_container_def ref_roles_create_def advance_def Let_def split: fault.splits)
next
  fix g rid w
  show "store (snd (roles_fetch ref_container g rid w)) = store w"
    by (simp add: ref_container_def ref_roles_fetch_def advance_def split: fault.splits)
next
  fix w
  show "store (snd (processQueues ref_container w)) = store w"
    by (simp add: ref_container_def ref_processQueues_def advance_def split: fault.splits)
next
  fix e u w
  show "store (snd (queueAssignment ref_container e u w)) = store w"
    by (simp add: ref_container_def ref_queueAssignment_def advance_def split: fault.splits)
next
  fix gid w
  show "store (snd (guilds_fetch ref_container gid w)) = store w"
    by (simp add: ref_container_def ref_guilds_fetch_def advance_def split: fault.splits)
next
  fix g w
  show "store (snd (scheduledEvents_fetch ref_container g w)) = store w"
    by (simp add: ref_container_def ref_scheduledEvents_fetch_def advance_def split: fault.splits)
next
  fix e w
  show "store (snd (fetchSubscribers ref_container e w)) = store w"
    by (simp add: ref_container_def ref_fetchSubscribers_def advance_def split: fault.splits)
next
  fix m w
  show "store (snd (member_fetch ref_container m w)) = store w"
    by (simp add: ref_container_def ref_member_fetch_def advance_def split: fault.splits)
qed

lemma ref_store_persists: "store_persists ref_container store"
  unfolding store_persists_def
proof (intro conjI allI impI)
  fix eid w d
  assume "fst (findScheduledEvent ref_container eid w) = Inr (Some d)"
  then show "store w eid = Some (roleId d)"
    by (auto simp add: ref_container_def ref_findScheduledEvent_def
          split: fault.splits option.splits)
next
  fix eid rid w and n :: int
  assume "fst (createScheduledEvent ref_container eid rid w) = Inr n \<and> 0 < n"
  then show "store (snd (createScheduledEvent ref_container eid rid w)) eid = Some rid"
    by (auto simp add: ref_container_def ref_createScheduledEvent_def advance_def
          split: fault.splits)
qed

section \<open>Idempotent creation\<close>

lemma processEvent_no_guild:
  "ev_guild e = None \<Longrightarrow>
   processEvent c e s =
     (Inr None, s\<lparr>calls := calls s @ [Log LError (FailedFindGuild (ev_name e) (ev_id e))]\<rparr>)"
  by (simp add: processEvent_def io_defs)

lemma processEvent_p0_no_guild:
  "ev_guild e = None \<Longrightarrow>
   processEvent_p0 c e s =
     (Inr None, s\<lparr>calls := calls s @ [Log LError (FailedFindGuild (ev_name e) (ev_id e))]\<rparr>)"
  by (simp add: processEvent_p0_def io_defs)

text \<open>A call that succeeds leaves the role id it returns persisted under the event.\<close>

lemma processEvent_p0_success_persists:
  assumes laws: "store_laws c recs" and pers: "store_persists c recs"
    and ok: "fst (processEvent_p0 c e s) = Inr (Some e1)"
  shows "\<exists>rid g. ev_guild e = Some g \<and> e1 = e\<lparr>customRoleId := Some rid\<rparr> \<and>
           recs (ext (snd (processEvent_p0 c e s))) (ev_id e) = Some rid"
proof (cases "ev_guild e")
  case None
  then show ?thesis
    using ok by (simp add: processEvent_p0_no_guild)
next
  case (Some g)
  note defs = processEvent_p0_def createCustomRole_def createEventDBEntry_def io_defs
  obtain r1 w1 where f1: "findScheduledEvent c (ev_id e) (ext s) = (r1, w1)"
    by (cases "findScheduledEvent c (ev_id e) (ext s)")
  have k1: "recs w1 = recs (ext s)"
    by (rule laws_find [OF laws f1])
  show ?thesis
  proof (cases r1)
    case (Inl err)
    then show ?thesis
      using ok by (simp add: defs Some f1)
  next
    case (Inr found)
    show ?thesis
    proof (cases found)
      case (Some d)
      have "recs (ext s) (ev_id e) = Some (roleId d)"
        using persists_find [OF pers] f1 Inr Some by simp
      then show ?thesis
        using ok k1 by (simp add: defs \<open>ev_guild e = Some g\<close> f1 Inr Some)
    next
      case None
      obtain r2 w2 where f2: "roles_create c g (customRoleOptions c e) w1 = (r2, w2)"
        by (cases "roles_create c g (customRoleOptions c e) w1")
      show ?thesis
      proof (cases r2)
        case (Inl err)
        then show ?thesis
          using ok by (simp add: defs \<open>ev_guild e = Some g\<close> f1 \<open>r1 = Inr found\<close> None f2)
      next
        case (Inr made)
        show ?thesis
        proof (cases made)
          case None
          then show ?thesis
            using ok
            by (simp add: defs \<open>ev_guild e = Some g\<close> f1 \<open>r1 = Inr found\<close> \<open>found = None\<close> f2 Inr)
        next
          case (Some rl)
          obtain r3 w3 where f3: "createScheduledEvent c (ev_id e) (role_id rl) w2 = (r3, w3)"
            by (cases "createScheduledEvent c (ev_id e) (role_id rl) w2")
          note path = \<open>ev_guild e = Some g\<close> f1 \<open>r1 = Inr found\<close> \<open>found = None\<close> f2 Inr Some f3
          show ?thesis
          proof (cases r3)
            case (Inl err)
            then show ?thesis
              using ok by (simp add: defs path)
          next
            case (Inr n)
            show ?thesis
            proof (cases "n > 0")
              case False
              then show ?thesis
                using ok by (simp add: defs path Inr)
            next
              case True
              have k3: "recs w3 (ev_id e) = Some (role_id rl)"
                using persists_create [OF pers _ True] f3 Inr by simp
              obtain r4 w4 where f4: "processQueues c w3 = (r4, w4)"
                by (cases "processQueues c w3")
              have k4: "recs w4 (ev_id e) = Some (role_id rl)"
                using laws_processQueues [OF laws f4] k3 by simp
              show ?thesis
                using ok k4 True by (cases r4) (simp_all add: defs path Inr f4)
            qed
          qed
        qed
      qed
    qed
  qed
qed

text \<open>With the record persisted, a call creates no role and writes nothing; it returns the
  event with the persisted role id, or null when its lookup throws.\<close>

lemma processEvent_p0_recorded:
  assumes laws: "store_laws c recs" and pers: "store_persists c recs"
    and g: "ev_guild e = Some g" and rec: "recs (ext s) (ev_id e) = Some rid"
  shows "filter isRolesCreate (new_calls (processEvent_p0 c e) s) = [] \<and>
         filter isDbCreate (new_calls (processEvent_p0 c e) s) = [] \<and>
         (fst (processEvent_p0 c e s) = Inr None \<or>
          fst (processEvent_p0 c e s) = Inr (Some (e\<lparr>customRoleId := Some rid\<rparr>))) \<and>
         (fst (findScheduledEvent c (ev_id e) (ext s)) = Inr x \<longrightarrow>
          fst (processEvent_p0 c e s) = Inr (Some (e\<lparr>customRoleId := Some rid\<rparr>)))"
proof -
  obtain r1 w1 where f1: "findScheduledEvent c (ev_id e) (ext s) = (r1, w1)"
    by (cases "findScheduledEvent c (ev_id e) (ext s)")
  show ?thesis
  proof (cases r1)
    case (Inl err)
    then show ?thesis
      by (simp add: processEvent_p0_def io_defs g f1 new_calls_def)
  next
    case (Inr found)
    show ?thesis
    proof (cases found)
      case None
      have "recs (ext s) (ev_id e) = None"
        using laws_find_none [OF laws] f1 Inr None by simp
      with rec show ?thesis
        by simp
    next
      case (Some d)
      have "recs (ext s) (ev_id e) = Some (roleId d)"
        using persists_find [OF pers] f1 Inr Some by simp
      with rec have rid: "roleId d = rid"
        by simp
      have f: "fst (findScheduledEvent c (ev_id e) (ext s)) = Inr (Some d)"
        by (simp add: f1 Inr Some)
      show ?thesis
        by (simp add: processEvent_p0_found [OF g f] new_calls_def rid)
    qed
  qed
qed

text \<open>
  C1, as amended. An event without a guild gets null from the guild check, with no call
  but the log line. For an event that has a guild and whose lookup in the store finds a
  record, \<open>processEvent\<close> returns the event, in the second variant annotated with the
  record's role id, and the only calls it makes are the lookup and one log line, so no
  role is created and nothing is written. Over a store that obeys \<open>store_laws\<close> and
  \<open>store_persists\<close>: for an event with a guild whose record is persisted, a call creates
  no role, writes nothing, and returns the event with the persisted role id (null only
  when its lookup throws); and when the first of two calls in sequence succeeds, the role
  id it returned is the one persisted, the second call creates no role and returns the
  same annotated event (null only when its lookup throws), and the two calls together
  ask for the creation of a role at most once.
\<close>

theorem processEvent_record_found:
  "(ev_guild e = None \<longrightarrow>
      processEvent_p0 c e s =
        (Inr None, s\<lparr>calls := calls s @ [Log LError (FailedFindGuild (ev_name e) (ev_id e))]\<rparr>) \<and>
      processEvent c e s =
        (Inr None, s\<lparr>calls := calls s @ [Log LError (FailedFindGuild (ev_name e) (ev_id e))]\<rparr>)) \<and>
   (ev_guild e = Some g \<and> fst (findScheduledEvent c (ev_id e) (ext s)) = Inr (Some d) \<longrightarrow>
      processEvent_p0 c e s =
        (Inr (Some (e\<lparr>customRoleId := Some (roleId d)\<rparr>)),
         s\<lparr>ext := snd (findScheduledEvent c (ev_id e) (ext s)),
           calls := calls s @ [DbFind (ev_id e) (Inr (Some d)),
                               Log LInfo (AlreadyExists (ev_name e))]\<rparr>) \<and>
      processEvent c e s =
        (Inr (Some e),
         s\<lparr>ext := snd (findScheduledEvent c (ev_id e) (ext s)),
           calls := calls s @ [DbFind (ev_id e) (Inr (Some d)),
                               Log LInfo (AlreadyExists (ev_name e))]\<rparr>)) \<and>
   (store_laws c recs \<and> store_persists c recs \<and> ev_guild e = Some g \<and>
    recs (ext s) (ev_id e) = Some rid \<longrightarrow>
      filter isRolesCreate (new_calls (processEvent_p0 c e) s) = [] \<and>
      filter isDbCreate (new_calls (processEvent_p0 c e) s) = [] \<and>
      (fst (processEvent_p0 c e s) = Inr None \<or>
       fst (processEvent_p0 c e s) = Inr (Some (e\<lparr>customRoleId := Some rid\<rparr>))) \<and>
      (fst (findScheduledEvent c (ev_id e) (ext s)) = Inr x \<longrightarrow>
       fst (processEvent_p0 c e s) = Inr (Some (e\<lparr>customRoleId := Some rid\<rparr>)))) \<and>
   (store_laws c recs \<and> store_persists c recs \<and>
    fst (processEvent_p0 c e s) = Inr (Some e1) \<longrightarrow>
      customRoleId e1 \<noteq> None \<and>
      recs (ext (snd (processEvent_p0 c e s))) (ev_id e) = customRoleId e1 \<and>
      filter isRolesCreate (new_calls (processEvent_p0 c e) (snd (processEvent_p0 c e s))) = [] \<and>
      filter isDbCreate (new_calls (processEvent_p0 c e) (snd (processEvent_p0 c e s))) = [] \<and>
      (fst (resolve_twice_p0 c e s) = Inr (Some e1, None) \<or>
       fst (resolve_twice_p0 c e s) = Inr (Some e1, Some e1)) \<and>
      (fst (findScheduledEvent c (ev_id e) (ext (snd (processEvent_p0 c e s)))) = Inr y \<longrightarrow>
       fst (resolve_twice_p0 c e s) = Inr (Some e1, Some e1)) \<and>
      length (filter isRolesCreate (new_calls (resolve_twice_p0 c e) s)) \<le> 1)"
proof (intro conjI impI)
  assume "ev_guild e = None"
  then show "processEvent_p0 c e s =
        (Inr None, s\<lparr>calls := calls s @ [Log LError (FailedFindGuild (ev_name e) (ev_id e))]\<rparr>)"
    and "processEvent c e s =
        (Inr None, s\<lparr>calls := calls s @ [Log LError (FailedFindGuild (ev_name e) (ev_id e))]\<rparr>)"
    by (simp_all add: processEvent_p0_no_guild processEvent_no_guild)
next
  assume a: "ev_guild e = Some g \<and> fst (findScheduledEvent c (ev_id e) (ext s)) = Inr (Some d)"
  then have g: "ev_guild e = Some g"
    and f: "fst (findScheduledEvent c (ev_id e) (ext s)) = Inr (Some d)"
    by simp_all
  show "processEvent_p0 c e s =
        (Inr (Some (e\<lparr>customRoleId := Some (roleId d)\<rparr>)),
         s\<lparr>ext := snd (findScheduledEvent c (ev_id e) (ext s)),
           calls := calls s @ [DbFind (ev_id e) (Inr (Some d)),
                               Log LInfo (AlreadyExists (ev_name e))]\<rparr>)"
    by (rule processEvent_p0_found [OF g f])
  show "processEvent c e s =
        (Inr (Some e),
         s\<lparr>ext := snd (findScheduledEvent c (ev_id e) (ext s)),
           calls := calls s @ [DbFind (ev_id e) (Inr (Some d)),
                               Log LInfo (AlreadyExists (ev_name e))]\<rparr>)"
    by (rule processEvent_found [OF g f])
next
  assume a: "store_laws c recs \<and> store_persists c recs \<and> ev_guild e = Some g \<and>
    recs (ext s) (ev_id e) = Some rid"
  then have laws: "store_laws c recs" and pers: "store_persists c recs"
    and g: "ev_guild e = Some g" and rec: "recs (ext s) (ev_id e) = Some rid"
    by simp_all
  note b = processEvent_p0_recorded [OF laws pers g rec, of x]
  show "filter isRolesCreate (new_calls (processEvent_p0 c e) s) = []"
    and "filter isDbCreate (new_calls (processEvent_p0 c e) s) = []"
    and "fst (processEvent_p0 c e s) = Inr None \<or>
       fst (processEvent_p0 c e s) = Inr (Some (e\<lparr>customRoleId := Some rid\<rparr>))"
    using b by simp_all
  show "fst (processEvent_p0 c e s) = Inr (Some (e\<lparr>customRoleId := Some rid\<rparr>))"
    if "fst (findScheduledEvent c (ev_id e) (ext s)) = Inr x"
    using b that by simp
next
  assume a: "store_laws c recs \<and> store_persists c recs \<and>
    fst (processEvent_p0 c e s) = Inr (Some e1)"
  then have laws: "store_laws c recs" and pers: "store_persists c recs"
    and ok: "fst (processEvent_p0 c e s) = Inr (Some e1)"
    by simp_all
  define s1 where "s1 = snd (processEvent_p0 c e s)"
  obtain rid g where g: "ev_guild e = Some g" and e1: "e1 = e\<lparr>customRoleId := Some rid\<rparr>"
    and rec: "recs (ext s1) (ev_id e) = Some rid"
    using processEvent_p0_success_persists [OF laws pers ok] unfolding s1_def by blast
  note second = processEvent_p0_recorded [OF laws pers g rec, of y]
  have first: "processEvent_p0 c e s = (Inr (Some e1), s1)"
    using ok by (simp add: s1_def prod_eq_iff)
  obtain r2 where r2: "fst (processEvent_p0 c e s1) = Inr r2"
    using processEvent_p0_returns by blast
  have both: "resolve_twice_p0 c e s = (Inr (Some e1, r2), snd (processEvent_p0 c e s1))"
    using r2 by (cases "processEvent_p0 c e s1")
      (simp add: resolve_twice_p0_def bind_io_def return_io_def first)
  obtain d1 where d1: "calls s1 = calls s @ d1"
    and n1: "length (filter isRolesCreate d1) \<le> 1"
    using processEvent_p0_calls [of c e s] unfolding s1_def by blast
  obtain d2 where d2: "calls (snd (processEvent_p0 c e s1)) = calls s1 @ d2"
    using processEvent_p0_calls [of c e s1] by blast
  have "new_calls (processEvent_p0 c e) s1 = d2"
    by (simp add: new_calls_def d2)
  with second have n2: "filter isRolesCreate d2 = []"
    by simp
  show "customRoleId e1 \<noteq> None"
    by (simp add: e1)
  show "recs (ext (snd (processEvent_p0 c e s))) (ev_id e) = customRoleId e1"
    using rec by (simp add: e1 s1_def)
  show "filter isRolesCreate (new_calls (processEvent_p0 c e) (snd (processEvent_p0 c e s))) = []"
    and "filter isDbCreate (new_calls (processEvent_p0 c e) (snd (processEvent_p0 c e s))) = []"
    using second by (simp_all add: s1_def)
  show "fst (resolve_twice_p0 c e s) = Inr (Some e1, None) \<or>
       fst (resolve_twice_p0 c e s) = Inr (Some e1, Some e1)"
    using second r2 by (auto simp add: both e1)
  show "fst (resolve_twice_p0 c e s) = Inr (Some e1, Some e1)"
    if "fst (findScheduledEvent c (ev_id e) (ext (snd (processEvent_p0 c e s)))) = Inr y"
    using second that r2 by (auto simp add: both e1 s1_def)
  have "new_calls (resolve_twice_p0 c e) s = d1 @ d2"
    by (simp add: new_calls_def both d2 d1)
  then show "length (filter isRolesCreate (new_calls (resolve_twice_p0 c e) s)) \<le> 1"
    using n1 n2 by simp
qed

text \<open>
  On the reference world: the event without a guild gets null; \<open>standup\<close>, already
  recorded with role \<open>R\<close>, comes back annotated with \<open>R\<close> and the guild keeps its one
  role; processed twice from the empty world, it comes back with \<open>R\<close> both times, \<open>R\<close>
  is what the store holds, and the guild ends with one role.
\<close>

theorem processEvent_record_found_witness:
  "ev_guild guildless = None \<and>
   fst (processEvent_p0 ref_container guildless (start world0)) = Inr None \<and>
   store_laws ref_container store \<and> store_persists ref_container store \<and>
   ev_guild standup = Some acm \<and>
   fst (findScheduledEvent ref_container (ev_id standup) (ext (start world_recorded))) =
     Inr (Some standup_record) \<and>
   store (ext (start world_recorded)) (ev_id standup) = Some ''R'' \<and>
   fst (processEvent_p0 ref_container standup (start world_recorded)) =
     Inr (Some (standup\<lparr>customRoleId := Some ''R''\<rparr>)) \<and>
   fst (processEvent ref_container standup (start world_recorded)) = Inr (Some standup) \<and>
   filter isRolesCreate (new_calls (processEvent_p0 ref_container standup)
     (start world_recorded)) = [] \<and>
   guild_roles (ext (snd (processEvent_p0 ref_container standup (start world_recorded)))) =
     [standup_role] \<and>
   fst (processEvent_p0 ref_container standup (start world0)) =
     Inr (Some (standup\<lparr>customRoleId := Some ''R''\<rparr>)) \<and>
   store (ext (snd (processEvent_p0 ref_container standup (start world0)))) (ev_id standup) =
     Some ''R'' \<and>
   fst (findScheduledEvent ref_container (ev_id standup)
          (ext (snd (processEvent_p0 ref_container standup (start world0))))) =
     Inr (Some standup_record) \<and>
   fst (resolve_twice_p0 ref_container standup (start world0)) =
     Inr (Some (standup\<lparr>customRoleId := Some ''R''\<rparr>),
          Some (standup\<lparr>customRoleId := Some ''R''\<rparr>)) \<and>
   length (filter isRolesCreate (new_calls (resolve_twice_p0 ref_container standup) (start world0)))
     \<le> 1 \<and>
   guild_roles (ext (snd (resolve_twice_p0 ref_container standup (start world0)))) =
     [standup_role]"
proof -
  let ?e1 = "standup\<lparr>customRoleId := Some ''R''\<rparr>"
  have g0: "ev_guild guildless = None"
    by code_simp
  have c0: "calls (start world0) = []"
    by (simp add: start_def)
  have h1: "ev_guild standup = Some acm"
    by code_simp
  have h2: "fst (findScheduledEvent ref_container (ev_id standup) (ext (start world_recorded))) =
     Inr (Some standup_record)"
    by code_simp
  have h2r: "roleId standup_record = ''R''"
    by code_simp
  have h3: "store (ext (start world_recorded)) (ev_id standup) = Some ''R''"
    by code_simp
  have h4: "fst (processEvent_p0 ref_container standup (start world0)) = Inr (Some ?e1)"
    by code_simp
  have h5: "fst (findScheduledEvent ref_container (ev_id standup)
          (ext (snd (processEvent_p0 ref_container standup (start world0))))) =
     Inr (Some standup_record)"
    by code_simp
  have r1: "guild_roles (ext (snd (processEvent_p0 ref_container standup (start world_recorded)))) =
     [standup_role]"
    by code_simp
  have r2: "guild_roles (ext (snd (resolve_twice_p0 ref_container standup (start world0)))) =
     [standup_role]"
    by code_simp
  have cr: "customRoleId ?e1 = Some ''R''"
    by simp
  note a = processEvent_record_found [of guildless ref_container "start world0"]
  note b = processEvent_record_found [of standup ref_container "start world_recorded" acm
      standup_record store "''R''" "Some standup_record"]
  note c = processEvent_record_found [of standup ref_container "start world0" acm
      standup_record store "''R''" "Some standup_record" ?e1 "Some standup_record"]
  have w0: "fst (processEvent_p0 ref_container guildless (start world0)) = Inr None"
    using a g0 by simp
  have w1: "fst (processEvent_p0 ref_container standup (start world_recorded)) = Inr (Some ?e1)"
    and w2: "fst (processEvent ref_container standup (start world_recorded)) = Inr (Some standup)"
    using b h1 h2 h2r by simp_all
  have w3: "filter isRolesCreate (new_calls (processEvent_p0 ref_container standup)
     (start world_recorded)) = []"
    using b h1 h3 ref_store_laws ref_store_persists by blast
  have w4: "store (ext (snd (processEvent_p0 ref_container standup (start world0))))
      (ev_id standup) = Some ''R''"
    using c h4 cr ref_store_laws ref_store_persists by simp
  have w5: "fst (resolve_twice_p0 ref_container standup (start world0)) =
     Inr (Some ?e1, Some ?e1)"
    using c h4 h5 ref_store_laws ref_store_persists by blast
  have w6: "length (filter isRolesCreate (new_calls (resolve_twice_p0 ref_container standup)
      (start world0))) \<le> 1"
    using c h4 ref_store_laws ref_store_persists by blast
  show ?thesis
    using g0 w0 ref_store_laws ref_store_persists h1 h2 h3 w1 w2 w3 r1 h4 w4 h5 w5 w6 r2
    by blast
qed

text \<open>
  C1 as stated fails. An event whose record is persisted but whose guild does not
  resolve is turned away by the guild check, which comes before the lookup; the first
  variant of the service returns the event without any annotation; and where the write
  after the first creation reports zero rows, two calls in sequence create two roles.
\<close>

theorem processEvent_record_found_counterexample:
  "fst (findScheduledEvent ref_container (ev_id (standup\<lparr>ev_guild := None\<rparr>))
          (ext (start world_recorded))) = Inr (Some standup_record) \<and>
   fst (processEvent_p0 ref_container (standup\<lparr>ev_guild := None\<rparr>) (start world_recorded)) =
     Inr None \<and>
   fst (processEvent ref_container (standup\<lparr>ev_guild := None\<rparr>) (start world_recorded)) =
     Inr None \<and>
   fst (processEvent ref_container standup (start world_recorded)) =
     Inr (Some (standup\<lparr>customRoleId := None\<rparr>)) \<and>
   length (filter isRolesCreate
     (new_calls (resolve_twice_p0 ref_container standup) (start world_zero_rows))) = 2 \<and>
   map role_id (guild_roles (ext (snd (resolve_twice_p0 ref_container standup
     (start world_zero_rows))))) = [''R'', ''Ri'']"
  by code_simp

section \<open>Batch isolation\<close>

lemma processEvent_result: "fst (processEvent c e s) = Inr r \<Longrightarrow> r = None \<or> r = Some e"
  unfolding processEvent_def createCustomRole_def createEventDBEntry_def io_defs
  by (auto split: option.splits sum.splits prod.splits if_splits)

lemma processEvent_p0_result:
  "fst (processEvent_p0 c e s) = Inr r \<Longrightarrow>
   r = None \<or> (\<exists>rid. r = Some (e\<lparr>customRoleId := Some rid\<rparr>))"
  unfolding processEvent_p0_def createCustomRole_def createEventDBEntry_def io_defs
  by (auto split: option.splits sum.splits prod.splits if_splits)

text \<open>One turn of the loop: \<open>processEvent\<close> does not throw, so its result is pushed.\<close>

lemma loop_step:
  "fst (processEvent c e s) = Inr r \<Longrightarrow>
   batchProcessEvents_loop c ((k, e) # rest) acc s =
     batchProcessEvents_loop c rest (acc @ [r]) (snd (processEvent c e s))"
  by (cases "processEvent c e s") (simp add: io_defs)

lemma loop_result:
  "\<exists>rs. fst (batchProcessEvents_loop c evs acc s) = Inr (acc @ rs) \<and> length rs = length evs"
proof (induction evs arbitrary: acc s)
  case Nil
  show ?case by (simp add: return_io_def)
next
  case (Cons x evs)
  obtain k e where x: "x = (k, e)" by (cases x)
  obtain r where r: "fst (processEvent c e s) = Inr r"
    using processEvent_returns by blast
  obtain rs where rs: "fst (batchProcessEvents_loop c evs (acc @ [r]) (snd (processEvent c e s))) =
      Inr ((acc @ [r]) @ rs)" and len: "length rs = length evs"
    using Cons.IH by blast
  show ?case
    unfolding x loop_step [OF r]
    by (rule exI [of _ "r # rs"]) (simp add: rs len)
qed

lemma loop_append:
  "fst (batchProcessEvents_loop c xs acc s) = Inr acc' \<Longrightarrow>
   batchProcessEvents_loop c (xs @ ys) acc s =
     batchProcessEvents_loop c ys acc' (snd (batchProcessEvents_loop c xs acc s))"
proof (induction xs arbitrary: acc s)
  case Nil
  then show ?case by (simp add: return_io_def)
next
  case (Cons x xs)
  obtain k e where x: "x = (k, e)" by (cases x)
  obtain r where r: "fst (processEvent c e s) = Inr r"
    using processEvent_returns by blast
  from Cons.prems
  have "fst (batchProcessEvents_loop c xs (acc @ [r]) (snd (processEvent c e s))) = Inr acc'"
    unfolding x loop_step [OF r] .
  from Cons.IH [OF this] show ?case
    unfolding x append_Cons loop_step [OF r] .
qed

lemma batch_nth:
  assumes k: "k < length events"
    and rs: "fst (batchProcessEvents c events s) = Inr rs"
  shows "fst (processEvent c (snd (events ! k)) (snd (batchProcessEvents c (take k events) s))) =
           Inr (rs ! k)"
proof -
  obtain pre where pre: "fst (batchProcessEvents_loop c (take k events) [] s) = Inr ([] @ pre)"
    and lpre: "length pre = length (take k events)"
    using loop_result by blast
  define s1 where "s1 = snd (batchProcessEvents_loop c (take k events) [] s)"
  obtain key e where e: "events ! k = (key, e)" by (cases "events ! k")
  obtain r where r: "fst (processEvent c e s1) = Inr r"
    using processEvent_returns by blast
  obtain post where post: "fst (batchProcessEvents_loop c (drop (Suc k) events) (pre @ [r])
      (snd (processEvent c e s1))) = Inr ((pre @ [r]) @ post)"
    using loop_result by blast
  have split: "events = take k events @ (key, e) # drop (Suc k) events"
    using k e by (metis id_take_nth_drop)
  have "batchProcessEvents_loop c events [] s =
          batchProcessEvents_loop c ((key, e) # drop (Suc k) events) pre s1"
    using loop_append [of c "take k events" "[]" s pre "(key, e) # drop (Suc k) events"] pre split
    by (simp add: s1_def)
  also have "\<dots> = batchProcessEvents_loop c (drop (Suc k) events) (pre @ [r])
      (snd (processEvent c e s1))"
    by (rule loop_step [OF r])
  finally have "fst (batchProcessEvents_loop c events [] s) = Inr ((pre @ [r]) @ post)"
    using post by simp
  with rs have "rs = (pre @ [r]) @ post"
    by (simp add: batchProcessEvents_def)
  moreover have "length pre = k"
    using lpre k by simp
  ultimately have "rs ! k = r"
    by (simp add: nth_append)
  with r show ?thesis
    by (simp add: e s1_def batchProcessEvents_def)
qed

text \<open>The same four facts for the loop of the second variant.\<close>

lemma loop_p0_step:
  "fst (processEvent_p0 c e s) = Inr r \<Longrightarrow>
   batchProcessEvents_loop_p0 c ((k, e) # rest) acc s =
     batchProcessEvents_loop_p0 c rest (acc @ [r]) (snd (processEvent_p0 c e s))"
  by (cases "processEvent_p0 c e s") (simp add: io_defs)

lemma loop_p0_result:
  "\<exists>rs. fst (batchProcessEvents_loop_p0 c evs acc s) = Inr (acc @ rs) \<and> length rs = length evs"
proof (induction evs arbitrary: acc s)
  case Nil
  show ?case by (simp add: return_io_def)
next
  case (Cons x evs)
  obtain k e where x: "x = (k, e)" by (cases x)
  obtain r where r: "fst (processEvent_p0 c e s) = Inr r"
    using processEvent_p0_returns by blast
  obtain rs where rs:
    "fst (batchProcessEvents_loop_p0 c evs (acc @ [r]) (snd (processEvent_p0 c e s))) =
      Inr ((acc @ [r]) @ rs)" and len: "length rs = length evs"
    using Cons.IH by blast
  show ?case
    unfolding x loop_p0_step [OF r]
    by (rule exI [of _ "r # rs"]) (simp add: rs len)
qed

lemma loop_p0_append:
  "fst (batchProcessEvents_loop_p0 c xs acc s) = Inr acc' \<Longrightarrow>
   batchProcessEvents_loop_p0 c (xs @ ys) acc s =
     batchProcessEvents_loop_p0 c ys acc' (snd (batchProcessEvents_loop_p0 c xs acc s))"
proof (induction xs arbitrary: acc s)
  case Nil
  then show ?case by (simp add: return_io_def)
next
  case (Cons x xs)
  obtain k e where x: "x = (k, e)" by (cases x)
  obtain r where r: "fst (processEvent_p0 c e s) = Inr r"
    using processEvent_p0_returns by blast
  from Cons.prems
  have "fst (batchProcessEvents_loop_p0 c xs (acc @ [r]) (snd (processEvent_p0 c e s))) = Inr acc'"
    unfolding x loop_p0_step [OF r] .
  from Cons.IH [OF this] show ?case
    unfolding x append_Cons loop_p0_step [OF r] .
qed

lemma batch_p0_nth:
  assumes k: "k < length events"
    and rs: "fst (batchProcessEvents_p0 c events s) = Inr rs"
  shows "fst (processEvent_p0 c (snd (events ! k))
               (snd (batchProcessEvents_p0 c (take k events) s))) = Inr (rs ! k)"
proof -
  obtain pre where pre: "fst (batchProcessEvents_loop_p0 c (take k events) [] s) = Inr ([] @ pre)"
    and lpre: "length pre = length (take k events)"
    using loop_p0_result by blast
  define s1 where "s1 = snd (batchProcessEvents_loop_p0 c (take k events) [] s)"
  obtain key e where e: "events ! k = (key, e)" by (cases "events ! k")
  obtain r where r: "fst (processEvent_p0 c e s1) = Inr r"
    using processEvent_p0_returns by blast
  obtain post where post: "fst (batchProcessEvents_loop_p0 c (drop (Suc k) events) (pre @ [r])
      (snd (processEvent_p0 c e s1))) = Inr ((pre @ [r]) @ post)"
    using loop_p0_result by blast
  have split: "events = take k events @ (key, e) # drop (Suc k) events"
    using k e by (metis id_take_nth_drop)
  have "batchProcessEvents_loop_p0 c events [] s =
          batchProcessEvents_loop_p0 c ((key, e) # drop (Suc k) events) pre s1"
    using loop_p0_append [of c "take k events" "[]" s pre "(key, e) # drop (Suc k) events"]
      pre split
    by (simp add: s1_def)
  also have "\<dots> = batchProcessEvents_loop_p0 c (drop (Suc k) events) (pre @ [r])
      (snd (processEvent_p0 c e s1))"
    by (rule loop_p0_step [OF r])
  finally have "fst (batchProcessEvents_loop_p0 c events [] s) = Inr ((pre @ [r]) @ post)"
    using post by simp
  with rs have "rs = (pre @ [r]) @ post"
    by (simp add: batchProcessEvents_p0_def)
  moreover have "length pre = k"
    using lpre k by simp
  ultimately have "rs ! k = r"
    by (simp add: nth_append)
  with r show ?thesis
    by (simp add: e s1_def batchProcessEvents_p0_def)
qed

text \<open>The state after one more event of the batch is the state \<open>processEvent\<close> leaves.\<close>

lemma batch_state_step:
  assumes k: "k < length events"
  shows "snd (batchProcessEvents c (take (Suc k) events) s) =
           snd (processEvent c (snd (events ! k)) (snd (batchProcessEvents c (take k events) s)))"
proof -
  obtain pre where pre: "fst (batchProcessEvents_loop c (take k events) [] s) = Inr ([] @ pre)"
    using loop_result by blast
  define s1 where "s1 = snd (batchProcessEvents_loop c (take k events) [] s)"
  obtain key e where e: "events ! k = (key, e)" by (cases "events ! k")
  obtain r where r: "fst (processEvent c e s1) = Inr r"
    using processEvent_returns by blast
  have "batchProcessEvents_loop c (take (Suc k) events) [] s =
          batchProcessEvents_loop c [(key, e)] pre s1"
    using loop_append [of c "take k events" "[]" s pre "[(key, e)]"] pre k e
    by (simp add: s1_def take_Suc_conv_app_nth)
  also have "\<dots> = batchProcessEvents_loop c [] (pre @ [r]) (snd (processEvent c e s1))"
    by (rule loop_step [OF r])
  finally show ?thesis
    by (simp add: batchProcessEvents_def return_io_def e s1_def)
qed

lemma batch_p0_state_step:
  assumes k: "k < length events"
  shows "snd (batchProcessEvents_p0 c (take (Suc k) events) s) =
           snd (processEvent_p0 c (snd (events ! k))
                 (snd (batchProcessEvents_p0 c (take k events) s)))"
proof -
  obtain pre where pre: "fst (batchProcessEvents_loop_p0 c (take k events) [] s) = Inr ([] @ pre)"
    using loop_p0_result by blast
  define s1 where "s1 = snd (batchProcessEvents_loop_p0 c (take k events) [] s)"
  obtain key e where e: "events ! k = (key, e)" by (cases "events ! k")
  obtain r where r: "fst (processEvent_p0 c e s1) = Inr r"
    using processEvent_p0_returns by blast
  have "batchProcessEvents_loop_p0 c (take (Suc k) events) [] s =
          batchProcessEvents_loop_p0 c [(key, e)] pre s1"
    using loop_p0_append [of c "take k events" "[]" s pre "[(key, e)]"] pre k e
    by (simp add: s1_def take_Suc_conv_app_nth)
  also have "\<dots> = batchProcessEvents_loop_p0 c [] (pre @ [r]) (snd (processEvent_p0 c e s1))"
    by (rule loop_p0_step [OF r])
  finally show ?thesis
    by (simp add: batchProcessEvents_p0_def return_io_def e s1_def)
qed

text \<open>
  C2. \<open>batchProcessEvents\<close> returns, for every list of events, a list of the same length.
  The batch over no event leaves the state as it is, and the batch over the first k+1
  events leaves the state in which \<open>processEvent\<close>, run on the k-th event after the batch
  over the first k, ends; so every event is processed, in order, whatever happened to
  the ones before it. The k-th slot is what that run of \<open>processEvent\<close> returned: the
  event itself (in the second variant with a role id set) or null.
\<close>

theorem batchProcessEvents_isolation:
  "(batchProcessEvents c [] s = (Inr [], s) \<and>
    (\<exists>rs. fst (batchProcessEvents c events s) = Inr rs \<and> length rs = length events \<and>
      (\<forall>k<length events.
         fst (processEvent c (snd (events ! k))
               (snd (batchProcessEvents c (take k events) s))) = Inr (rs ! k) \<and>
         snd (batchProcessEvents c (take (Suc k) events) s) =
           snd (processEvent c (snd (events ! k))
                 (snd (batchProcessEvents c (take k events) s))) \<and>
         (rs ! k = None \<or> rs ! k = Some (snd (events ! k)))))) \<and>
   (batchProcessEvents_p0 c [] s = (Inr [], s) \<and>
    (\<exists>rs. fst (batchProcessEvents_p0 c events s) = Inr rs \<and> length rs = length events \<and>
      (\<forall>k<length events.
         fst (processEvent_p0 c (snd (events ! k))
               (snd (batchProcessEvents_p0 c (take k events) s))) = Inr (rs ! k) \<and>
         snd (batchProcessEvents_p0 c (take (Suc k) events) s) =
           snd (processEvent_p0 c (snd (events ! k))
                 (snd (batchProcessEvents_p0 c (take k events) s))) \<and>
         (rs ! k = None \<or>
          (\<exists>rid. rs ! k = Some ((snd (events ! k))\<lparr>customRoleId := Some rid\<rparr>))))))"
proof (intro conjI)
  show "batchProcessEvents c [] s = (Inr [], s)"
    by (simp add: batchProcessEvents_def return_io_def)
  show "batchProcessEvents_p0 c [] s = (Inr [], s)"
    by (simp add: batchProcessEvents_p0_def return_io_def)
next
  obtain rs where rs: "fst (batchProcessEvents c events s) = Inr rs"
    and len: "length rs = length events"
    using loop_result [of c events "[]" s] by (auto simp: batchProcessEvents_def)
  show "\<exists>rs. fst (batchProcessEvents c events s) = Inr rs \<and> length rs = length events \<and>
      (\<forall>k<length events.
         fst (processEvent c (snd (events ! k))
               (snd (batchProcessEvents c (take k events) s))) = Inr (rs ! k) \<and>
         snd (batchProcessEvents c (take (Suc k) events) s) =
           snd (processEvent c (snd (events ! k))
                 (snd (batchProcessEvents c (take k events) s))) \<and>
         (rs ! k = None \<or> rs ! k = Some (snd (events ! k))))"
    using rs len batch_nth [OF _ rs] batch_state_step [of _ events c s] processEvent_result
    by blast
next
  obtain rs where rs: "fst (batchProcessEvents_p0 c events s) = Inr rs"
    and len: "length rs = length events"
    using loop_p0_result [of c events "[]" s] by (auto simp: batchProcessEvents_p0_def)
  show "\<exists>rs. fst (batchProcessEvents_p0 c events s) = Inr rs \<and> length rs = length events \<and>
      (\<forall>k<length events.
         fst (processEvent_p0 c (snd (events ! k))
               (snd (batchProcessEvents_p0 c (take k events) s))) = Inr (rs ! k) \<and>
         snd (batchProcessEvents_p0 c (take (Suc k) events) s) =
           snd (processEvent_p0 c (snd (events ! k))
                 (snd (batchProcessEvents_p0 c (take k events) s))) \<and>
         (rs ! k = None \<or>
          (\<exists>rid. rs ! k = Some ((snd (events ! k))\<lparr>customRoleId := Some rid\<rparr>))))"
    using rs len batch_p0_nth [OF _ rs] batch_p0_state_step [of _ events c s]
      processEvent_p0_result
    by blast
qed

text \<open>On the reference world, the batch whose second event has no guild gives a null in
  the second slot and the two other events around it, and the state after the first
  two events is the one \<open>processEvent\<close> leaves for the second. Where the first write
  reports zero rows, the first slot is null and the second event is still processed.\<close>

theorem batchProcessEvents_isolation_witness:
  "fst (batchProcessEvents ref_container batch3 (start world0)) =
     Inr [Some standup, None, Some game_night] \<and>
   (1::nat) < length batch3 \<and>
   (\<exists>rs. fst (batchProcessEvents ref_container batch3 (start world0)) = Inr rs \<and>
      length rs = length batch3 \<and>
      fst (processEvent ref_container (snd (batch3 ! 1))
            (snd (batchProcessEvents ref_container (take 1 batch3) (start world0)))) =
        Inr (rs ! 1) \<and>
      (rs ! 1 = None \<or> rs ! 1 = Some (snd (batch3 ! 1)))) \<and>
   snd (batchProcessEvents ref_container (take (Suc 1) batch3) (start world0)) =
     snd (processEvent ref_container (snd (batch3 ! 1))
           (snd (batchProcessEvents ref_container (take 1 batch3) (start world0)))) \<and>
   fst (batchProcessEvents ref_container batch2 (start world_zero_rows)) =
     Inr [None, Some game_night] \<and>
   map role_name (guild_roles (ext (snd (batchProcessEvents ref_container batch2
     (start world_zero_rows))))) = [''Standup [Weekly]'', ''Board Game Night [March-03 18:00]''] \<and>
   store (ext (snd (batchProcessEvents ref_container batch2 (start world_zero_rows)))) ''e2'' =
     Some ''Ri''"
proof -
  have v: "fst (batchProcessEvents ref_container batch3 (start world0)) =
     Inr [Some standup, None, Some game_night]"
    by code_simp
  have k: "(1::nat) < length batch3"
    by (simp add: batch3_def)
  have z1: "fst (batchProcessEvents ref_container batch2 (start world_zero_rows)) =
     Inr [None, Some game_night]"
    by code_simp
  have z2: "map role_name (guild_roles (ext (snd (batchProcessEvents ref_container batch2
     (start world_zero_rows))))) = [''Standup [Weekly]'', ''Board Game Night [March-03 18:00]'']"
    by code_simp
  have z3: "store (ext (snd (batchProcessEvents ref_container batch2
     (start world_zero_rows)))) ''e2'' = Some ''Ri''"
    by code_simp
  from batchProcessEvents_isolation [of ref_container "start world0" batch3]
  obtain rs where "fst (batchProcessEvents ref_container batch3 (start world0)) = Inr rs"
    and "length rs = length batch3"
    and "\<forall>k<length batch3.
         fst (processEvent ref_container (snd (batch3 ! k))
               (snd (batchProcessEvents ref_container (take k batch3) (start world0)))) =
           Inr (rs ! k) \<and>
         snd (batchProcessEvents ref_container (take (Suc k) batch3) (start world0)) =
           snd (processEvent ref_container (snd (batch3 ! k))
                 (snd (batchProcessEvents ref_container (take k batch3) (start world0)))) \<and>
         (rs ! k = None \<or> rs ! k = Some (snd (batch3 ! k)))"
    by blast
  with v k z1 z2 z3 show ?thesis
    by blast
qed

section \<open>Failure of the persistence write\<close>

lemma createEventDBEntry_calls:
  "\<exists>d. calls (snd (createEventDBEntry c e rid s)) = calls s @ d \<and>
       length (filter isProcessQueues d) = length (filter isAckedWrite d)"
  unfolding createEventDBEntry_def io_defs
  by (auto split: option.splits sum.splits prod.splits if_splits)

text \<open>
  C3. In every run of \<open>processEvent\<close> and of \<open>createEventDBEntry\<close> the number of
  \<open>processQueues\<close> signals equals the number of writes that reported at least one row,
  so the signal is sent only for such a write. When the guild is there, no record is
  found, the role is created and the write reports no row, \<open>processEvent\<close> returns null
  and its calls are the lookup, the creation, the write and two log lines: no signal.
\<close>

theorem processEvent_write_zero_rows:
  "length (filter isProcessQueues (new_calls (processEvent c e) s)) =
     length (filter isAckedWrite (new_calls (processEvent c e) s)) \<and>
   length (filter isProcessQueues (new_calls (createEventDBEntry c e rid) s)) =
     length (filter isAckedWrite (new_calls (createEventDBEntry c e rid) s)) \<and>
   (ev_guild e = Some g \<and>
    fst (findScheduledEvent c (ev_id e) (ext s)) = Inr None \<and>
    roles_create c g (customRoleOptions c e) (snd (findScheduledEvent c (ev_id e) (ext s))) =
      (Inr (Some rl), w2) \<and>
    createScheduledEvent c (ev_id e) (role_id rl) w2 = (Inr n, w3) \<and> n \<le> 0 \<longrightarrow>
    processEvent c e s =
      (Inr None,
       s\<lparr>ext := w3,
         calls := calls s @
           [DbFind (ev_id e) (Inr None),
            RolesCreate g (customRoleOptions c e) (Inr (Some rl)),
            Log LInfo (CreatedRole (role_name rl) (ev_name e) (ev_id e)),
            DbCreate (ev_id e) (role_id rl) (Inr n),
            Log LError (FailedWriteDb (ev_name e) (ev_id e))]\<rparr>))"
proof (intro conjI impI)
  show "length (filter isProcessQueues (new_calls (processEvent c e) s)) =
     length (filter isAckedWrite (new_calls (processEvent c e) s))"
    using processEvent_calls [of c e s] by (auto dest: new_calls_eq)
  show "length (filter isProcessQueues (new_calls (createEventDBEntry c e rid) s)) =
     length (filter isAckedWrite (new_calls (createEventDBEntry c e rid) s))"
    using createEventDBEntry_calls [of c e rid s] by (auto dest: new_calls_eq)
next
  assume "ev_guild e = Some g \<and>
    fst (findScheduledEvent c (ev_id e) (ext s)) = Inr None \<and>
    roles_create c g (customRoleOptions c e) (snd (findScheduledEvent c (ev_id e) (ext s))) =
      (Inr (Some rl), w2) \<and>
    createScheduledEvent c (ev_id e) (role_id rl) w2 = (Inr n, w3) \<and> n \<le> 0"
  then show "processEvent c e s =
      (Inr None,
       s\<lparr>ext := w3,
         calls := calls s @
           [DbFind (ev_id e) (Inr None),
            RolesCreate g (customRoleOptions c e) (Inr (Some rl)),
            Log LInfo (CreatedRole (role_name rl) (ev_name e) (ev_id e)),
            DbCreate (ev_id e) (role_id rl) (Inr n),
            Log LError (FailedWriteDb (ev_name e) (ev_id e))]\<rparr>)"
    by (cases "findScheduledEvent c (ev_id e) (ext s)")
       (simp add: processEvent_def createCustomRole_def createEventDBEntry_def io_defs)
qed

text \<open>On the reference world whose write reports zero rows: null, the role exists, the
  store is empty, and the queue got no signal.\<close>

theorem processEvent_write_zero_rows_witness:
  "ev_guild standup = Some acm \<and>
   fst (findScheduledEvent ref_container (ev_id standup) (ext (start world_zero_rows))) =
     Inr None \<and>
   fst (roles_create ref_container acm (customRoleOptions ref_container standup)
         (snd (findScheduledEvent ref_container (ev_id standup) (ext (start world_zero_rows))))) =
     Inr (Some standup_role) \<and>
   fst (createScheduledEvent ref_container (ev_id standup) (role_id standup_role)
         (snd (roles_create ref_container acm (customRoleOptions ref_container standup)
           (snd (findScheduledEvent ref_container (ev_id standup)
             (ext (start world_zero_rows))))))) = Inr 0 \<and>
   fst (processEvent ref_container standup (start world_zero_rows)) = Inr None \<and>
   filter isProcessQueues (calls (snd (processEvent ref_container standup
     (start world_zero_rows)))) = [] \<and>
   drains (ext (snd (processEvent ref_container standup (start world_zero_rows)))) = 0 \<and>
   guild_roles (ext (snd (processEvent ref_container standup (start world_zero_rows)))) =
     [standup_role] \<and>
   store (ext (snd (processEvent ref_container standup (start world_zero_rows)))) ''e1'' = None"
proof -
  let ?s = "start world_zero_rows"
  let ?w1 = "snd (findScheduledEvent ref_container (ev_id standup) (ext ?s))"
  let ?w2 = "snd (roles_create ref_container acm (customRoleOptions ref_container standup) ?w1)"
  let ?w3 = "snd (createScheduledEvent ref_container (ev_id standup) (role_id standup_role) ?w2)"
  have h1: "ev_guild standup = Some acm"
    by code_simp
  have h2: "fst (findScheduledEvent ref_container (ev_id standup) (ext ?s)) = Inr None"
    by code_simp
  have h3: "fst (roles_create ref_container acm (customRoleOptions ref_container standup) ?w1) =
      Inr (Some standup_role)"
    by code_simp
  have h4: "fst (createScheduledEvent ref_container (ev_id standup) (role_id standup_role) ?w2) =
      Inr 0"
    by code_simp
  have e3: "roles_create ref_container acm (customRoleOptions ref_container standup) ?w1 =
      (Inr (Some standup_role), ?w2)"
    using h3 by (simp add: prod_eq_iff)
  have e4: "createScheduledEvent ref_container (ev_id standup) (role_id standup_role) ?w2 =
      (Inr 0, ?w3)"
    using h4 by (simp add: prod_eq_iff)
  have r: "processEvent ref_container standup ?s =
      (Inr None,
       ?s\<lparr>ext := ?w3,
          calls := calls ?s @
            [DbFind (ev_id standup) (Inr None),
             RolesCreate acm (customRoleOptions ref_container standup) (Inr (Some standup_role)),
             Log LInfo (CreatedRole (role_name standup_role) (ev_name standup) (ev_id standup)),
             DbCreate (ev_id standup) (role_id standup_role) (Inr 0),
             Log LError (FailedWriteDb (ev_name standup) (ev_id standup))]\<rparr>)"
    using processEvent_write_zero_rows
      [of ref_container standup ?s "role_id standup_role" acm standup_role ?w2 0 ?w3]
      h1 h2 e3 e4
    by simp
  have c0: "calls ?s = []"
    by (simp add: start_def)
  have t: "filter isProcessQueues (calls (snd (processEvent ref_container standup ?s))) = []"
    by (simp add: r c0)
  have v1: "drains (ext (snd (processEvent ref_container standup ?s))) = 0"
    by code_simp
  have v2: "guild_roles (ext (snd (processEvent ref_container standup ?s))) = [standup_role]"
    by code_simp
  have v3: "store (ext (snd (processEvent ref_container standup ?s))) ''e1'' = None"
    by code_simp
  show ?thesis
    using h1 h2 h3 h4 r t v1 v2 v3 by simp
qed

section \<open>Failure of the role creation\<close>

text \<open>
  C6. When the guild is there, no record is found, and \<open>roles.create\<close> throws or returns
  nothing, \<open>processEvent\<close> (either variant) returns null, makes no write to the store,
  and leaves the world as the failed creation left it.
\<close>

theorem processEvent_role_creation_fails:
  assumes g: "ev_guild e = Some g"
    and f: "fst (findScheduledEvent c (ev_id e) (ext s)) = Inr None"
    and r: "roles_create c g (customRoleOptions c e)
              (snd (findScheduledEvent c (ev_id e) (ext s))) = (r, w2)"
    and bad: "r = Inl err \<or> r = Inr None"
  shows "fst (processEvent c e s) = Inr None \<and>
         ext (snd (processEvent c e s)) = w2 \<and>
         filter isDbCreate (new_calls (processEvent c e) s) = [] \<and>
         fst (processEvent_p0 c e s) = Inr None \<and>
         ext (snd (processEvent_p0 c e s)) = w2 \<and>
         filter isDbCreate (new_calls (processEvent_p0 c e) s) = []"
  using assms
  by (cases "findScheduledEvent c (ev_id e) (ext s)")
     (auto simp add: processEvent_def processEvent_p0_def createCustomRole_def io_defs
        new_calls_def)

text \<open>On the reference worlds whose role creation throws, and returns nothing: null, and
  the store stays empty.\<close>

theorem processEvent_role_creation_fails_witness:
  "ev_guild standup = Some acm \<and>
   fst (findScheduledEvent ref_container (ev_id standup) (ext (start world_create_throws))) =
     Inr None \<and>
   fst (roles_create ref_container acm (customRoleOptions ref_container standup)
         (snd (findScheduledEvent ref_container (ev_id standup)
           (ext (start world_create_throws))))) = Inl (Error ''role creation failed'') \<and>
   fst (processEvent ref_container standup (start world_create_throws)) = Inr None \<and>
   filter isDbCreate (new_calls (processEvent ref_container standup)
     (start world_create_throws)) = [] \<and>
   store (ext (snd (processEvent ref_container standup (start world_create_throws)))) ''e1'' =
     None \<and>
   fst (findScheduledEvent ref_container (ev_id standup) (ext (start world_create_nothing))) =
     Inr None \<and>
   fst (roles_create ref_container acm (customRoleOptions ref_container standup)
         (snd (findScheduledEvent ref_container (ev_id standup)
           (ext (start world_create_nothing))))) = Inr None \<and>
   fst (processEvent_p0 ref_container standup (start world_create_nothing)) = Inr None \<and>
   filter isDbCreate (new_calls (processEvent_p0 ref_container standup)
     (start world_create_nothing)) = [] \<and>
   store (ext (snd (processEvent_p0 ref_container standup (start world_create_nothing)))) ''e1'' =
     None"
proof -
  let ?s = "start world_create_throws"
  let ?t = "start world_create_nothing"
  let ?rs = "roles_create ref_container acm (customRoleOptions ref_container standup)
         (snd (findScheduledEvent ref_container (ev_id standup) (ext ?s)))"
  let ?rt = "roles_create ref_container acm (customRoleOptions ref_container standup)
         (snd (findScheduledEvent ref_container (ev_id standup) (ext ?t)))"
  have h1: "ev_guild standup = Some acm"
    by code_simp
  have h2: "fst (findScheduledEvent ref_container (ev_id standup) (ext ?s)) = Inr None"
    by code_simp
  have h3: "fst ?rs = Inl (Error ''role creation failed'')"
    by code_simp
  have k2: "fst (findScheduledEvent ref_container (ev_id standup) (ext ?t)) = Inr None"
    by code_simp
  have k3: "fst ?rt = Inr None"
    by code_simp
  have e3: "?rs = (fst ?rs, snd ?rs)" and f3: "?rt = (fst ?rt, snd ?rt)"
    by simp_all
  have v1: "store (ext (snd (processEvent ref_container standup ?s))) ''e1'' = None"
    by code_simp
  have v2: "store (ext (snd (processEvent_p0 ref_container standup ?t))) ''e1'' = None"
    by code_simp
  note a = processEvent_role_creation_fails [OF h1 h2 e3, of "Error ''role creation failed''"]
  note b = processEvent_role_creation_fails [OF h1 k2 f3, of "Error ''role creation failed''"]
  show ?thesis
    using a b h1 h2 h3 k2 k3 v1 v2 by simp
qed

section \<open>The name of the role\<close>

lemma createCustomRole_call:
  "ev_guild e = Some g \<Longrightarrow>
   new_calls (createCustomRole c e) s =
     [RolesCreate g (customRoleOptions c e) (fst (roles_create c g (customRoleOptions c e) (ext s)))]"
  by (cases "roles_create c g (customRoleOptions c e) (ext s)")
     (simp add: createCustomRole_def ext_call_def new_calls_def)

text \<open>
  C8. For an event with a recurrence rule, \<open>createCustomRole\<close> makes one call of
  \<open>roles.create\<close>, and the name it asks for is the truncated event name followed by the
  bracketed label: Yearly, Monthly, Weekly, Daily for the frequencies 0, 1, 2, 3, and
  empty brackets for any other frequency.
\<close>

theorem createCustomRole_recurring_name:
  assumes "recurrenceRule e = Some rule" and "ev_guild e = Some g"
  shows "new_calls (createCustomRole c e) s =
           [RolesCreate g (customRoleOptions c e)
              (fst (roles_create c g (customRoleOptions c e) (ext s)))] \<and>
         (frequency rule = 0 \<longrightarrow>
            opt_name (customRoleOptions c e) = reasonableTruncate c (ev_name e) @ '' [Yearly]'') \<and>
         (frequency rule = 1 \<longrightarrow>
            opt_name (customRoleOptions c e) = reasonableTruncate c (ev_name e) @ '' [Monthly]'') \<and>
         (frequency rule = 2 \<longrightarrow>
            opt_name (customRoleOptions c e) = reasonableTruncate c (ev_name e) @ '' [Weekly]'') \<and>
         (frequency rule = 3 \<longrightarrow>
            opt_name (customRoleOptions c e) = reasonableTruncate c (ev_name e) @ '' [Daily]'') \<and>
         (frequency rule \<notin> {0, 1, 2, 3} \<longrightarrow>
            opt_name (customRoleOptions c e) = reasonableTruncate c (ev_name e) @ '' []'')"
  using assms createCustomRole_call [of e g c s]
  by (simp add: customRoleOptions_def customRoleName_def freqString_def)

text \<open>On the reference world: "Standup", weekly, gives "Standup [Weekly]", and with the
  frequency 7 it gives "Standup []".\<close>

theorem createCustomRole_recurring_name_witness:
  "recurrenceRule standup = Some \<lparr>frequency = 2\<rparr> \<and> ev_guild standup = Some acm \<and>
   reasonableTruncate ref_container (ev_name standup) = ''Standup'' \<and>
   opt_name (customRoleOptions ref_container standup) = ''Standup [Weekly]'' \<and>
   recurrenceRule standup_odd = Some \<lparr>frequency = 7\<rparr> \<and> ev_guild standup_odd = Some acm \<and>
   reasonableTruncate ref_container (ev_name standup_odd) = ''Standup'' \<and>
   opt_name (customRoleOptions ref_container standup_odd) = ''Standup []''"
proof -
  have h1: "recurrenceRule standup = Some \<lparr>frequency = 2\<rparr>" and h2: "ev_guild standup = Some acm"
    by code_simp+
  have k1: "recurrenceRule standup_odd = Some \<lparr>frequency = 7\<rparr>"
    and k2: "ev_guild standup_odd = Some acm"
    by code_simp+
  have t1: "reasonableTruncate ref_container (ev_name standup) = ''Standup''"
    and t2: "reasonableTruncate ref_container (ev_name standup_odd) = ''Standup''"
    by code_simp+
  note a = createCustomRole_recurring_name [OF h1 h2, of ref_container "start world0"]
  note b = createCustomRole_recurring_name [OF k1 k2, of ref_container "start world0"]
  show ?thesis
    using a b h1 h2 k1 k2 t1 t2 by simp
qed

text \<open>
  C9, as amended. For an event without a recurrence rule, \<open>createCustomRole\<close> makes one
  call of \<open>roles.create\<close>, and the name it asks for is the truncated event name followed by
  the bracketed start time as \<open>Timestamp\<close> displays it for the pattern \<open>MMM-DD HH:mm\<close>; the
  start time is the event's start timestamp whenever that is set and not 0. With the
  library's formatter the bracket holds the full name of the month, the day on two
  digits, and the hour and minute on two digits each, of the time in the zone of the
  process.
\<close>

theorem createCustomRole_dated_name:
  assumes "recurrenceRule e = None" and "ev_guild e = Some g"
  shows "new_calls (createCustomRole c e) s =
           [RolesCreate g (customRoleOptions c e)
              (fst (roles_create c g (customRoleOptions c e) (ext s)))] \<and>
         opt_name (customRoleOptions c e) =
           reasonableTruncate c (ev_name e) @ '' ['' @
           timestamp_display c ''MMM-DD HH:mm'' (startTime e) @ '']'' \<and>
         (scheduledStartTimestamp e = Some t \<and> t \<noteq> 0 \<longrightarrow> startTime e = TimeNumber t) \<and>
         (timestamp_display c = display_in_zone zone \<longrightarrow>
            opt_name (customRoleOptions c e) =
              reasonableTruncate c (ev_name e) @ '' ['' @
              month_name (fst (month_day (local_millis zone (startTime e) div 86400000))) @ ''-'' @
              pad2 (snd (month_day (local_millis zone (startTime e) div 86400000))) @ '' '' @
              pad2 (local_millis zone (startTime e) div 3600000 mod 24) @ '':'' @
              pad2 (local_millis zone (startTime e) div 60000 mod 60) @ '']'')"
  using assms createCustomRole_call [of e g c s]
  by (simp add: customRoleOptions_def customRoleName_def startTime_def display_in_zone_def)

text \<open>On the reference world, whose process runs in UTC: "Board Game Night" starting on
  3 March at 18:00 UTC gives "Board Game Night [March-03 18:00]".\<close>

theorem createCustomRole_dated_name_witness:
  "recurrenceRule game_night = None \<and> ev_guild game_night = Some acm \<and>
   scheduledStartTimestamp game_night = Some 1741024800000 \<and> (1741024800000::int) \<noteq> 0 \<and>
   timestamp_display ref_container = display_in_zone 0 \<and>
   startTime game_night = TimeNumber 1741024800000 \<and>
   timestamp_display ref_container ''MMM-DD HH:mm'' (TimeNumber 1741024800000) =
     ''March-03 18:00'' \<and>
   reasonableTruncate ref_container (ev_name game_night) = ''Board Game Night'' \<and>
   opt_name (customRoleOptions ref_container game_night) =
     ''Board Game Night [March-03 18:00]''"
proof -
  have h1: "recurrenceRule game_night = None" and h2: "ev_guild game_night = Some acm"
    and h3: "scheduledStartTimestamp game_night = Some 1741024800000"
    by code_simp+
  have h4: "(1741024800000::int) \<noteq> 0"
    by simp
  have h5: "timestamp_display ref_container = display_in_zone 0"
    by (simp add: ref_container_def ref_timestamp_display_def)
  have d: "timestamp_display ref_container ''MMM-DD HH:mm'' (TimeNumber 1741024800000) =
     ''March-03 18:00''"
    by code_simp
  have t: "reasonableTruncate ref_container (ev_name game_night) = ''Board Game Night''"
    by code_simp
  note a = createCustomRole_dated_name [OF h1 h2, of ref_container "start world0"
      1741024800000 0]
  have st: "startTime game_night = TimeNumber 1741024800000"
    using a h3 h4 by simp
  have n: "opt_name (customRoleOptions ref_container game_night) =
     ''Board Game Night [March-03 18:00]''"
    using a d t by (simp add: st)
  show ?thesis
    using h1 h2 h3 h4 h5 st d t n by simp
qed

text \<open>
  C9 as stated fails: for the start time of the claim's example the name asked for is
  "Board Game Night [March-03 18:00]", with the month in full, not "Board Game Night
  [Mar-03 18:00]"; and in a process eight hours behind UTC the same event gets
  "Board Game Night [March-03 10:00]".
\<close>

theorem createCustomRole_dated_name_counterexample:
  "opt_name (customRoleOptions ref_container game_night) =
     ''Board Game Night [March-03 18:00]'' \<and>
   opt_name (customRoleOptions ref_container game_night) \<noteq>
     ''Board Game Night [Mar-03 18:00]'' \<and>
   opt_name (customRoleOptions ref_container_west game_night) =
     ''Board Game Night [March-03 10:00]''"
  by code_simp

text \<open>
  C10. For an event without a recurrence rule whose start timestamp is null or 0, the
  time displayed is \<open>new Date(0)\<close>, the epoch: the name keeps its bracketed suffix, and
  a start timestamp of 0 gives the same name as no start timestamp.
\<close>

theorem createCustomRole_epoch_fallback:
  assumes "recurrenceRule e = None" and "ev_guild e = Some g"
    and "scheduledStartTimestamp e = None \<or> scheduledStartTimestamp e = Some 0"
  shows "new_calls (createCustomRole c e) s =
           [RolesCreate g (customRoleOptions c e)
              (fst (roles_create c g (customRoleOptions c e) (ext s)))] \<and>
         opt_name (customRoleOptions c e) =
           reasonableTruncate c (ev_name e) @ '' ['' @
           timestamp_display c ''MMM-DD HH:mm'' (TimeDate 0) @ '']'' \<and>
         customRoleOptions c (e\<lparr>scheduledStartTimestamp := None\<rparr>) =
           customRoleOptions c (e\<lparr>scheduledStartTimestamp := Some 0\<rparr>)"
  using assms createCustomRole_call [of e g c s]
  by (auto simp add: customRoleOptions_def customRoleName_def startTime_def)

text \<open>On the reference world: "Board Game Night" without a start time, and with start
  time 0, both give "Board Game Night [January-01 00:00]".\<close>

theorem createCustomRole_epoch_fallback_witness:
  "recurrenceRule game_night_unset = None \<and> ev_guild game_night_unset = Some acm \<and>
   scheduledStartTimestamp game_night_unset = None \<and>
   timestamp_display ref_container ''MMM-DD HH:mm'' (TimeDate 0) = ''January-01 00:00'' \<and>
   reasonableTruncate ref_container (ev_name game_night_unset) = ''Board Game Night'' \<and>
   opt_name (customRoleOptions ref_container game_night_unset) =
     ''Board Game Night [January-01 00:00]'' \<and>
   recurrenceRule game_night_zero = None \<and> ev_guild game_night_zero = Some acm \<and>
   scheduledStartTimestamp game_night_zero = Some 0 \<and>
   reasonableTruncate ref_container (ev_name game_night_zero) = ''Board Game Night'' \<and>
   opt_name (customRoleOptions ref_container game_night_zero) =
     ''Board Game Night [January-01 00:00]''"
proof -
  have h1: "recurrenceRule game_night_unset = None"
    and h2: "ev_guild game_night_unset = Some acm"
    and h3: "scheduledStartTimestamp game_night_unset = None"
    by code_simp+
  have k1: "recurrenceRule game_night_zero = None"
    and k2: "ev_guild game_night_zero = Some acm"
    and k3: "scheduledStartTimestamp game_night_zero = Some 0"
    by code_simp+
  have d: "timestamp_display ref_container ''MMM-DD HH:mm'' (TimeDate 0) = ''January-01 00:00''"
    by code_simp
  have t1: "reasonableTruncate ref_container (ev_name game_night_unset) = ''Board Game Night''"
    and t2: "reasonableTruncate ref_container (ev_name game_night_zero) = ''Board Game Night''"
    by code_simp+
  note a = createCustomRole_epoch_fallback [OF h1 h2 disjI1 [OF h3], of ref_container "start world0"]
  note b = createCustomRole_epoch_fallback [OF k1 k2 disjI2 [OF k3], of ref_container "start world0"]
  show ?thesis
    using a b h1 h2 h3 k1 k2 k3 d t1 t2 by simp
qed

section \<open>Errors at the boundary of the service\<close>

lemma getEventRoleId_result:
  "getEventRoleId c eid s =
     (case fst (findScheduledEvent c eid (ext s)) of
        Inl err \<Rightarrow> Inl err
      | Inr None \<Rightarrow> Inr None
      | Inr (Some d) \<Rightarrow> if roleId d = [] then Inr None else Inr (Some (roleId d)),
      s\<lparr>ext := snd (findScheduledEvent c eid (ext s)),
        calls := calls s @ [DbFind eid (fst (findScheduledEvent c eid (ext s)))]\<rparr>)"
  by (cases "findScheduledEvent c eid (ext s)")
     (auto simp add: getEventRoleId_def falsy_def io_defs split: sum.splits option.splits)

text \<open>When a call made by \<open>processEvent\<close> throws, the result is null.\<close>

lemma processEvent_thrown:
  "\<exists>d. calls (snd (processEvent c e s)) = calls s @ d \<and>
       (filter isThrown d \<noteq> [] \<longrightarrow> fst (processEvent c e s) = Inr None)"
  unfolding processEvent_def createCustomRole_def createEventDBEntry_def io_defs
  by (auto split: option.splits sum.splits prod.splits if_splits)

lemma processEvent_p0_thrown:
  "\<exists>d. calls (snd (processEvent_p0 c e s)) = calls s @ d \<and>
       (filter isThrown d \<noteq> [] \<longrightarrow> fst (processEvent_p0 c e s) = Inr None)"
  unfolding processEvent_p0_def createCustomRole_def createEventDBEntry_def io_defs
  by (auto split: option.splits sum.splits prod.splits if_splits)

lemma processEvent_thrown_null:
  "filter isThrown (new_calls (processEvent c e) s) \<noteq> [] \<Longrightarrow> fst (processEvent c e s) = Inr None"
  using processEvent_thrown [of c e s] by (auto dest: new_calls_eq)

lemma processEvent_p0_thrown_null:
  "filter isThrown (new_calls (processEvent_p0 c e) s) \<noteq> [] \<Longrightarrow>
   fst (processEvent_p0 c e s) = Inr None"
  using processEvent_p0_thrown [of c e s] by (auto dest: new_calls_eq)

text \<open>
  C4, as amended. \<open>processEvent\<close> and \<open>batchProcessEvents\<close>, in both variants, return a
  value whatever the collaborators do, and whenever a call that \<open>processEvent\<close> makes to
  the store, the data source or the queue throws, its result is null, which is the slot
  of that event in the output of the batch. \<open>getEventRole\<close> returns a value whenever the
  lookup in the store does, and null when the role fetch throws. \<open>getEventRoleId\<close> and
  the startup pass have no handler: an error thrown by the lookup, and by the fetch of
  the guild, leaves them as it is.
\<close>

theorem service_boundary_errors:
  "(\<exists>r. fst (processEvent c e s) = Inr r) \<and>
   (filter isThrown (new_calls (processEvent c e) s) \<noteq> [] \<longrightarrow>
      fst (processEvent c e s) = Inr None) \<and>
   (\<exists>r. fst (processEvent_p0 c e s) = Inr r) \<and>
   (filter isThrown (new_calls (processEvent_p0 c e) s) \<noteq> [] \<longrightarrow>
      fst (processEvent_p0 c e s) = Inr None) \<and>
   (\<exists>rs. fst (batchProcessEvents c events s) = Inr rs \<and> length rs = length events \<and>
      (\<forall>k<length events.
         filter isThrown (new_calls (processEvent c (snd (events ! k)))
           (snd (batchProcessEvents c (take k events) s))) \<noteq> [] \<longrightarrow> rs ! k = None)) \<and>
   (\<exists>rs. fst (batchProcessEvents_p0 c events s) = Inr rs \<and> length rs = length events \<and>
      (\<forall>k<length events.
         filter isThrown (new_calls (processEvent_p0 c (snd (events ! k)))
           (snd (batchProcessEvents_p0 c (take k events) s))) \<noteq> [] \<longrightarrow> rs ! k = None)) \<and>
   (fst (findScheduledEvent c (ev_id e) (ext s)) = Inr x \<longrightarrow>
      (\<exists>r. fst (getEventRole c e s) = Inr r)) \<and>
   (ev_guild e = Some g \<and> fst (findScheduledEvent c (ev_id e) (ext s)) = Inr (Some d) \<and>
    roleId d \<noteq> [] \<and>
    fst (roles_fetch c g (roleId d) (snd (findScheduledEvent c (ev_id e) (ext s)))) = Inl err \<longrightarrow>
      fst (getEventRole c e s) = Inr None) \<and>
   (fst (findScheduledEvent c eid (ext s)) = Inl err \<longrightarrow>
      fst (getEventRoleId c eid s) = Inl err) \<and>
   (fst (guilds_fetch c (env_GUILD c) (ext s)) = Inl err \<longrightarrow> fst (run c s) = Inl err)"
proof (intro conjI impI)
  show "\<exists>r. fst (processEvent c e s) = Inr r"
    by (rule processEvent_returns)
  show "\<exists>r. fst (processEvent_p0 c e s) = Inr r"
    by (rule processEvent_p0_returns)
next
  assume "filter isThrown (new_calls (processEvent c e) s) \<noteq> []"
  then show "fst (processEvent c e s) = Inr None"
    by (rule processEvent_thrown_null)
next
  assume "filter isThrown (new_calls (processEvent_p0 c e) s) \<noteq> []"
  then show "fst (processEvent_p0 c e s) = Inr None"
    by (rule processEvent_p0_thrown_null)
next
  obtain rs where rs: "fst (batchProcessEvents c events s) = Inr rs"
    and len: "length rs = length events"
    using loop_result [of c events "[]" s] by (auto simp: batchProcessEvents_def)
  have "rs ! k = None"
    if "k < length events"
      and "filter isThrown (new_calls (processEvent c (snd (events ! k)))
             (snd (batchProcessEvents c (take k events) s))) \<noteq> []" for k
    using batch_nth [OF that(1) rs] processEvent_thrown_null [OF that(2)] by simp
  with rs len
  show "\<exists>rs. fst (batchProcessEvents c events s) = Inr rs \<and> length rs = length events \<and>
      (\<forall>k<length events.
         filter isThrown (new_calls (processEvent c (snd (events ! k)))
           (snd (batchProcessEvents c (take k events) s))) \<noteq> [] \<longrightarrow> rs ! k = None)"
    by blast
next
  obtain rs where rs: "fst (batchProcessEvents_p0 c events s) = Inr rs"
    and len: "length rs = length events"
    using loop_p0_result [of c events "[]" s] by (auto simp: batchProcessEvents_p0_def)
  have "rs ! k = None"
    if "k < length events"
      and "filter isThrown (new_calls (processEvent_p0 c (snd (events ! k)))
             (snd (batchProcessEvents_p0 c (take k events) s))) \<noteq> []" for k
    using batch_p0_nth [OF that(1) rs] processEvent_p0_thrown_null [OF that(2)] by simp
  with rs len
  show "\<exists>rs. fst (batchProcessEvents_p0 c events s) = Inr rs \<and> length rs = length events \<and>
      (\<forall>k<length events.
         filter isThrown (new_calls (processEvent_p0 c (snd (events ! k)))
           (snd (batchProcessEvents_p0 c (take k events) s))) \<noteq> [] \<longrightarrow> rs ! k = None)"
    by blast
next
  assume "fst (findScheduledEvent c (ev_id e) (ext s)) = Inr x"
  then show "\<exists>r. fst (getEventRole c e s) = Inr r"
    by (auto simp add: getEventRole_def getEventRoleId_result io_defs falsy_def
          split: option.splits sum.splits prod.splits)
next
  assume "ev_guild e = Some g \<and> fst (findScheduledEvent c (ev_id e) (ext s)) = Inr (Some d) \<and>
    roleId d \<noteq> [] \<and>
    fst (roles_fetch c g (roleId d) (snd (findScheduledEvent c (ev_id e) (ext s)))) = Inl err"
  then show "fst (getEventRole c e s) = Inr None"
    by (auto simp add: getEventRole_def getEventRoleId_result io_defs falsy_def
          split: option.splits sum.splits prod.splits)
next
  assume "fst (findScheduledEvent c eid (ext s)) = Inl err"
  then show "fst (getEventRoleId c eid s) = Inl err"
    by (simp add: getEventRoleId_result)
next
  assume "fst (guilds_fetch c (env_GUILD c) (ext s)) = Inl err"
  then show "fst (run c s) = Inl err"
    by (cases "guilds_fetch c (env_GUILD c) (ext s)") (simp add: run_def io_defs)
qed

text \<open>On the reference worlds: with the role fetch throwing \<open>getEventRole\<close> gives null;
  with everything throwing, the lookup that \<open>processEvent\<close> makes throws and
  \<open>processEvent\<close> gives null, the batch gives a null in every slot, while
  \<open>getEventRoleId\<close> and the pass throw.\<close>

theorem service_boundary_errors_witness:
  "ev_guild standup = Some acm \<and>
   fst (findScheduledEvent ref_container (ev_id standup) (ext (start world_fetch_throws))) =
     Inr (Some standup_record) \<and>
   roleId standup_record \<noteq> [] \<and>
   fst (roles_fetch ref_container acm (roleId standup_record)
         (snd (findScheduledEvent ref_container (ev_id standup)
           (ext (start world_fetch_throws))))) = Inl (Error ''role fetch failed'') \<and>
   fst (getEventRole ref_container standup (start world_fetch_throws)) = Inr None \<and>
   fst (findScheduledEvent ref_container ''e1'' (ext (start world_down))) =
     Inl (Error ''store unavailable'') \<and>
   fst (getEventRoleId ref_container ''e1'' (start world_down)) =
     Inl (Error ''store unavailable'') \<and>
   fst (guilds_fetch ref_container (env_GUILD ref_container) (ext (start world_down))) =
     Inl (Error ''guild fetch failed'') \<and>
   fst (run ref_container (start world_down)) = Inl (Error ''guild fetch failed'') \<and>
   filter isThrown (new_calls (processEvent ref_container standup) (start world_down)) \<noteq> [] \<and>
   fst (processEvent ref_container standup (start world_down)) = Inr None \<and>
   filter isThrown (new_calls (processEvent_p0 ref_container standup) (start world_down)) \<noteq> [] \<and>
   fst (processEvent_p0 ref_container standup (start world_down)) = Inr None \<and>
   (0::nat) < length batch3 \<and>
   filter isThrown (new_calls (processEvent ref_container (snd (batch3 ! 0)))
     (snd (batchProcessEvents ref_container (take 0 batch3) (start world_down)))) \<noteq> [] \<and>
   (\<exists>rs. fst (batchProcessEvents ref_container batch3 (start world_down)) = Inr rs \<and>
      length rs = length batch3 \<and> rs ! 0 = None) \<and>
   fst (batchProcessEvents ref_container batch3 (start world_down)) = Inr [None, None, None]"
proof -
  have h1: "ev_guild standup = Some acm"
    by code_simp
  have h2: "fst (findScheduledEvent ref_container (ev_id standup)
      (ext (start world_fetch_throws))) = Inr (Some standup_record)"
    by code_simp
  have h3: "roleId standup_record \<noteq> []"
    by code_simp
  have h4: "fst (roles_fetch ref_container acm (roleId standup_record)
         (snd (findScheduledEvent ref_container (ev_id standup)
           (ext (start world_fetch_throws))))) = Inl (Error ''role fetch failed'')"
    by code_simp
  have h5: "fst (findScheduledEvent ref_container ''e1'' (ext (start world_down))) =
     Inl (Error ''store unavailable'')"
    by code_simp
  have h6: "fst (guilds_fetch ref_container (env_GUILD ref_container) (ext (start world_down))) =
     Inl (Error ''guild fetch failed'')"
    by code_simp
  have t1: "filter isThrown (new_calls (processEvent ref_container standup)
      (start world_down)) \<noteq> []"
    by code_simp
  have t2: "filter isThrown (new_calls (processEvent_p0 ref_container standup)
      (start world_down)) \<noteq> []"
    by code_simp
  have k: "(0::nat) < length batch3"
    by (simp add: batch3_def)
  have t3: "filter isThrown (new_calls (processEvent ref_container (snd (batch3 ! 0)))
     (snd (batchProcessEvents ref_container (take 0 batch3) (start world_down)))) \<noteq> []"
    by code_simp
  have v2: "fst (batchProcessEvents ref_container batch3 (start world_down)) =
     Inr [None, None, None]"
    by code_simp
  note a = service_boundary_errors [of ref_container standup "start world_fetch_throws" batch3
      "Some standup_record" acm standup_record "Error ''role fetch failed''" "''e1''"]
  note b = service_boundary_errors [of ref_container standup "start world_down" batch3
      "Some standup_record" acm standup_record "Error ''store unavailable''" "''e1''"]
  note c = service_boundary_errors [of ref_container standup "start world_down" batch3
      "Some standup_record" acm standup_record "Error ''guild fetch failed''" "''e1''"]
  have n1: "fst (processEvent ref_container standup (start world_down)) = Inr None"
    using b t1 by blast
  have n2: "fst (processEvent_p0 ref_container standup (start world_down)) = Inr None"
    using b t2 by blast
  have n3: "\<exists>rs. fst (batchProcessEvents ref_container batch3 (start world_down)) = Inr rs \<and>
      length rs = length batch3 \<and> rs ! 0 = None"
    using b k t3 by blast
  have g1: "fst (getEventRole ref_container standup (start world_fetch_throws)) = Inr None"
    using a h1 h2 h3 h4 by blast
  have g2: "fst (getEventRoleId ref_container ''e1'' (start world_down)) =
     Inl (Error ''store unavailable'')"
    using b h5 by blast
  have g3: "fst (run ref_container (start world_down)) = Inl (Error ''guild fetch failed'')"
    using c h6 by blast
  show ?thesis
    using h1 h2 h3 h4 h5 h6 t1 t2 k t3 v2 n1 n2 n3 g1 g2 g3 by blast
qed

text \<open>
  C4 as stated fails: with the store and the data source throwing, \<open>getEventRoleId\<close>,
  \<open>getEventRole\<close> and the startup pass each end with the error thrown to their caller.
\<close>

theorem service_boundary_errors_counterexample:
  "fst (getEventRoleId ref_container ''e1'' (start world_down)) =
     Inl (Error ''store unavailable'') \<and>
   fst (getEventRole ref_container standup (start world_down)) =
     Inl (Error ''store unavailable'') \<and>
   fst (run ref_container (start world_down)) = Inl (Error ''guild fetch failed'')"
  by code_simp

section \<open>The startup pass\<close>

lemma intents_of_append: "intents_of (xs @ ys) = intents_of xs @ intents_of ys"
  by (induction xs rule: intents_of.induct) simp_all

lemma fetched_members_append:
  "fetched_members (xs @ ys) = fetched_members xs @ fetched_members ys"
  by (induction xs rule: fetched_members.induct) simp_all

lemma fetch_args_append: "fetch_args (xs @ ys) = fetch_args xs @ fetch_args ys"
  by (induction xs rule: fetch_args.induct) simp_all

lemma find_role_None: "(find (\<lambda>r. role_id r = rid) (mem_roles m) = None) = (\<not> holds_role rid m)"
  by (auto simp add: find_None_iff holds_role_def)








section \<open>Records are never changed\<close>

text \<open>The two variants of \<open>processEvent\<close> make the same calls and leave the same state.\<close>

lemma processEvent_p0_state: "snd (processEvent_p0 c e s) = snd (processEvent c e s)"
  unfolding processEvent_def processEvent_p0_def createCustomRole_def createEventDBEntry_def io_defs
  by (auto split: option.splits sum.splits prod.splits if_splits)

lemma processEvent_keeps:
  assumes laws: "store_laws c recs" and rec: "recs (ext s) i = Some r"
  shows "recs (ext (snd (processEvent c e s))) i = Some r"
proof (cases "ev_guild e")
  case None
  then show ?thesis
    using rec by (simp add: processEvent_def io_defs)
next
  case (Some g)
  note defs = processEvent_def createCustomRole_def createEventDBEntry_def io_defs
  obtain r1 w1 where f1: "findScheduledEvent c (ev_id e) (ext s) = (r1, w1)"
    by (cases "findScheduledEvent c (ev_id e) (ext s)")
  have k1: "recs w1 i = Some r"
    using laws_find [OF laws f1] rec by simp
  show ?thesis
  proof (cases r1)
    case (Inl err)
    then show ?thesis
      using k1 by (simp add: defs Some f1)
  next
    case (Inr found)
    show ?thesis
    proof (cases found)
      case (Some d)
      then show ?thesis
        using k1 by (simp add: defs \<open>ev_guild e = Some g\<close> f1 Inr)
    next
      case None
      have "recs (ext s) (ev_id e) = None"
        using laws_find_none [OF laws] f1 Inr None by simp
      with rec have ne: "i \<noteq> ev_id e"
        by auto
      obtain r2 w2 where f2: "roles_create c g (customRoleOptions c e) w1 = (r2, w2)"
        by (cases "roles_create c g (customRoleOptions c e) w1")
      have k2: "recs w2 i = Some r"
        using laws_roles_create [OF laws f2] k1 by simp
      show ?thesis
      proof (cases r2)
        case (Inl err)
        then show ?thesis
          using k2 by (simp add: defs \<open>ev_guild e = Some g\<close> f1 \<open>r1 = Inr found\<close> None f2)
      next
        case (Inr made)
        show ?thesis
        proof (cases made)
          case None
          then show ?thesis
            using k2
            by (simp add: defs \<open>ev_guild e = Some g\<close> f1 \<open>r1 = Inr found\<close> \<open>found = None\<close> f2 Inr)
        next
          case (Some rl)
          obtain r3 w3 where f3: "createScheduledEvent c (ev_id e) (role_id rl) w2 = (r3, w3)"
            by (cases "createScheduledEvent c (ev_id e) (role_id rl) w2")
          have k3: "recs w3 i = Some r"
            using laws_create [OF laws f3 ne] k2 by simp
          note path = \<open>ev_guild e = Some g\<close> f1 \<open>r1 = Inr found\<close> \<open>found = None\<close> f2 Inr Some f3
          show ?thesis
          proof (cases r3)
            case (Inl err)
            then show ?thesis
              using k3 by (simp add: defs path)
          next
            case (Inr n)
            show ?thesis
            proof (cases "n > 0")
              case False
              then show ?thesis
                using k3 by (simp add: defs path Inr)
            next
              case True
              obtain r4 w4 where f4: "processQueues c w3 = (r4, w4)"
                by (cases "processQueues c w3")
              have k4: "recs w4 i = Some r"
                using laws_processQueues [OF laws f4] k3 by simp
              show ?thesis
                using k4 True by (cases r4) (simp_all add: defs path Inr f4)
            qed
          qed
        qed
      qed
    qed
  qed
qed

lemma loop_keeps:
  assumes laws: "store_laws c recs"
  shows "recs (ext s) i = Some r \<Longrightarrow>
         recs (ext (snd (batchProcessEvents_loop c evs acc s))) i = Some r"
proof (induction evs arbitrary: acc s)
  case Nil
  then show ?case by (simp add: return_io_def)
next
  case (Cons x evs)
  obtain k e where x: "x = (k, e)" by (cases x)
  obtain res where res: "fst (processEvent c e s) = Inr res"
    using processEvent_returns by blast
  have "recs (ext (snd (processEvent c e s))) i = Some r"
    using processEvent_keeps [OF laws Cons.prems] .
  from Cons.IH [OF this] show ?case
    unfolding x loop_step [OF res] .
qed

lemma loop_p0_keeps:
  assumes laws: "store_laws c recs"
  shows "recs (ext s) i = Some r \<Longrightarrow>
         recs (ext (snd (batchProcessEvents_loop_p0 c evs acc s))) i = Some r"
proof (induction evs arbitrary: acc s)
  case Nil
  then show ?case by (simp add: return_io_def)
next
  case (Cons x evs)
  obtain k e where x: "x = (k, e)" by (cases x)
  obtain res where res: "fst (processEvent_p0 c e s) = Inr res"
    using processEvent_p0_returns by blast
  have "recs (ext (snd (processEvent_p0 c e s))) i = Some r"
    using processEvent_keeps [OF laws Cons.prems] by (simp add: processEvent_p0_state)
  from Cons.IH [OF this] show ?case
    unfolding x loop_p0_step [OF res] .
qed

lemma getEventRoleId_keeps:
  assumes laws: "store_laws c recs"
  shows "recs (ext (snd (getEventRoleId c eid s))) = recs (ext s)"
  using laws by (simp add: getEventRoleId_result store_laws_def)

lemma getEventRole_keeps:
  assumes laws: "store_laws c recs"
  shows "recs (ext (snd (getEventRole c e s))) = recs (ext s)"
proof (cases "ev_guild e")
  case None
  then show ?thesis by (simp add: getEventRole_def return_io_def)
next
  case (Some g)
  define s1 where "s1 = snd (getEventRoleId c (ev_id e) s)"
  obtain r1 where g1: "getEventRoleId c (ev_id e) s = (r1, s1)"
    by (cases "getEventRoleId c (ev_id e) s") (simp add: s1_def)
  have k1: "recs (ext s1) = recs (ext s)"
    unfolding s1_def by (rule getEventRoleId_keeps [OF laws])
  show ?thesis
  proof (cases r1)
    case (Inl err)
    then show ?thesis
      using k1 by (simp add: getEventRole_def Some bind_io_def g1)
  next
    case (Inr rid)
    show ?thesis
    proof (cases "falsy rid")
      case True
      then show ?thesis
        using k1 by (simp add: getEventRole_def Some bind_io_def return_io_def g1 Inr)
    next
      case False
      obtain r2 w2 where f2: "roles_fetch c g (the rid) (ext s1) = (r2, w2)"
        by (cases "roles_fetch c g (the rid) (ext s1)")
      have k2: "recs w2 = recs (ext s)"
        using laws_roles_fetch [OF laws f2] k1 by simp
      show ?thesis
        using k2 False
        by (cases r2) (simp_all add: getEventRole_def Some io_defs g1 Inr f2)
    qed
  qed
qed

lemma run_subscribers_keeps:
  assumes laws: "store_laws c recs"
  shows "recs (ext (snd (run_subscribers c g ev rid subs s))) = recs (ext s)"
proof (induction subs arbitrary: s)
  case Nil
  show ?case by (simp add: return_io_def)
next
  case (Cons x subs)
  obtain uid sub where x: "x = (uid, sub)" by (cases x)
  show ?case
  proof (cases "sub_member sub")
    case None
    then show ?thesis
      by (simp add: x io_defs Cons.IH)
  next
    case (Some m)
    obtain r1 w1 where f1: "member_fetch c m (ext s) = (r1, w1)"
      by (cases "member_fetch c m (ext s)")
    have k1: "recs w1 = recs (ext s)"
      by (rule laws_member_fetch [OF laws f1])
    show ?thesis
    proof (cases r1)
      case (Inl err)
      then show ?thesis
        using k1 by (simp add: x Some io_defs f1)
    next
      case (Inr member)
      show ?thesis
      proof (cases "holds_role rid member")
        case True
        then show ?thesis
          using k1 by (simp add: x Some io_defs f1 Inr find_role_None Cons.IH)
      next
        case False
        obtain r2 w2 where f2: "queueAssignment c ev (mem_user member) w1 = (r2, w2)"
          by (cases "queueAssignment c ev (mem_user member) w1")
        have k2: "recs w2 = recs (ext s)"
          using laws_queueAssignment [OF laws f2] k1 by simp
        show ?thesis
          using k2 False
          by (cases r2) (simp_all add: x Some io_defs f1 Inr find_role_None f2 Cons.IH)
      qed
    qed
  qed
qed

lemma run_events_keeps:
  assumes laws: "store_laws c recs"
  shows "recs (ext (snd (run_events c g evs s))) = recs (ext s)"
proof (induction evs arbitrary: s)
  case Nil
  show ?case by (simp add: return_io_def)
next
  case (Cons x evs)
  show ?case
  proof (cases x)
    case None
    then show ?thesis
      by (simp add: io_defs Cons.IH)
  next
    case (Some event)
    define s1 where "s1 = snd (getEventRoleId c (ev_id event) s)"
    obtain r1 where g1: "getEventRoleId c (ev_id event) s = (r1, s1)"
      by (cases "getEventRoleId c (ev_id event) s") (simp add: s1_def)
    have k1: "recs (ext s1) = recs (ext s)"
      unfolding s1_def by (rule getEventRoleId_keeps [OF laws])
    show ?thesis
    proof (cases r1)
      case (Inl err)
      then show ?thesis
        using k1 by (simp add: Some bind_io_def g1)
    next
      case (Inr rid)
      show ?thesis
      proof (cases "falsy rid")
        case True
        then show ?thesis
          using k1 by (simp add: Some bind_io_def logger_def g1 Inr Cons.IH)
      next
        case False
        obtain r2 w2 where f2: "fetchSubscribers c event (ext s1) = (r2, w2)"
          by (cases "fetchSubscribers c event (ext s1)")
        have k2: "recs w2 = recs (ext s)"
          using laws_fetchSubscribers [OF laws f2] k1 by simp
        show ?thesis
        proof (cases r2)
          case (Inl err)
          then show ?thesis
            using k2 False by (simp add: Some bind_io_def ext_call_def g1 \<open>r1 = Inr rid\<close> f2)
        next
          case (Inr subs)
          let ?s2 = "s1\<lparr>ext := w2, calls := calls s1 @ [FetchSubscribers event (Inr subs)]\<rparr>"
          define s3 where "s3 = snd (run_subscribers c g event (the rid) subs ?s2)"
          obtain r3 where g3: "run_subscribers c g event (the rid) subs ?s2 = (r3, s3)"
            by (cases "run_subscribers c g event (the rid) subs ?s2") (simp add: s3_def)
          have k3: "recs (ext s3) = recs (ext s)"
            unfolding s3_def using run_subscribers_keeps [OF laws, of g event "the rid" subs ?s2] k2
            by simp
          show ?thesis
            using k3 False
            by (cases r3)
               (simp_all add: Some bind_io_def ext_call_def g1 \<open>r1 = Inr rid\<close> f2 Inr g3 Cons.IH)
        qed
      qed
    qed
  qed
qed

lemma run_keeps:
  assumes laws: "store_laws c recs" and rec: "recs (ext s) i = Some r"
  shows "recs (ext (snd (run c s))) i = Some r"
proof -
  obtain r1 w1 where f1: "guilds_fetch c (env_GUILD c) (ext s) = (r1, w1)"
    by (cases "guilds_fetch c (env_GUILD c) (ext s)")
  have k1: "recs w1 i = Some r"
    using laws_guilds_fetch [OF laws f1] rec by simp
  show ?thesis
  proof (cases r1)
    case (Inl err)
    then show ?thesis
      using k1 by (simp add: run_def bind_io_def ext_call_def f1)
  next
    case (Inr acmguild)
    obtain r2 w2 where f2: "scheduledEvents_fetch c acmguild w1 = (r2, w2)"
      by (cases "scheduledEvents_fetch c acmguild w1")
    have k2: "recs w2 i = Some r"
      using laws_scheduledEvents_fetch [OF laws f2] k1 by simp
    show ?thesis
    proof (cases r2)
      case (Inl err)
      then show ?thesis
        using k2 by (simp add: run_def bind_io_def ext_call_def f1 \<open>r1 = Inr acmguild\<close> f2)
    next
      case (Inr events)
      let ?s2 = "s\<lparr>ext := w2, calls := calls s @ [GuildsFetch (env_GUILD c) (Inr acmguild),
                     EventsFetch acmguild (Inr events)]\<rparr>"
      define s3 where "s3 = snd (batchProcessEvents c events ?s2)"
      obtain r3 where g3: "batchProcessEvents c events ?s2 = (r3, s3)"
        by (cases "batchProcessEvents c events ?s2") (simp add: s3_def)
      have k3: "recs (ext s3) i = Some r"
        unfolding s3_def batchProcessEvents_def
        using loop_keeps [OF laws, of ?s2 i r events "[]"] k2 by simp
      show ?thesis
        using k3
        by (cases r3)
           (simp_all add: run_def bind_io_def ext_call_def f1 \<open>r1 = Inr acmguild\<close> f2 Inr g3
              run_events_keeps [OF laws])
    qed
  qed
qed

text \<open>
  C7. Over any store that obeys \<open>store_laws\<close>, a record that exists is still there, with
  the same role id, after \<open>processEvent\<close>, \<open>batchProcessEvents\<close> (both variants),
  \<open>getEventRoleId\<close>, \<open>getEventRole\<close> and the startup pass, whatever the collaborators
  return. When the lookup finds the record of an event and the role fetch finds no role
  (or throws), as after the role was deleted outside, \<open>processEvent\<close> still returns the
  event and asks neither for a role nor for a write, and \<open>getEventRole\<close> returns null.
\<close>

theorem record_immutable:
  assumes laws: "store_laws c recs" and rec: "recs (ext s) i = Some r"
  shows "recs (ext (snd (processEvent c e s))) i = Some r \<and>
         recs (ext (snd (processEvent_p0 c e s))) i = Some r \<and>
         recs (ext (snd (batchProcessEvents c events s))) i = Some r \<and>
         recs (ext (snd (batchProcessEvents_p0 c events s))) i = Some r \<and>
         recs (ext (snd (getEventRoleId c eid s))) i = Some r \<and>
         recs (ext (snd (getEventRole c e s))) i = Some r \<and>
         recs (ext (snd (run c s))) i = Some r \<and>
         (ev_guild e = Some g \<and>
          fst (findScheduledEvent c (ev_id e) (ext s)) = Inr (Some d) \<and>
          (fst (roles_fetch c g (roleId d) (snd (findScheduledEvent c (ev_id e) (ext s)))) =
             Inr None \<or>
           fst (roles_fetch c g (roleId d) (snd (findScheduledEvent c (ev_id e) (ext s)))) =
             Inl err) \<longrightarrow>
          fst (processEvent c e s) = Inr (Some e) \<and>
          filter isRolesCreate (new_calls (processEvent c e) s) = [] \<and>
          filter isDbCreate (new_calls (processEvent c e) s) = [] \<and>
          fst (getEventRole c e s) = Inr None)"
proof (intro conjI impI)
  show "recs (ext (snd (processEvent c e s))) i = Some r"
    by (rule processEvent_keeps [OF laws rec])
  then show "recs (ext (snd (processEvent_p0 c e s))) i = Some r"
    by (simp add: processEvent_p0_state)
  show "recs (ext (snd (batchProcessEvents c events s))) i = Some r"
    unfolding batchProcessEvents_def by (rule loop_keeps [OF laws rec])
  show "recs (ext (snd (batchProcessEvents_p0 c events s))) i = Some r"
    unfolding batchProcessEvents_p0_def by (rule loop_p0_keeps [OF laws rec])
  show "recs (ext (snd (getEventRoleId c eid s))) i = Some r"
    using rec by (simp add: getEventRoleId_keeps [OF laws])
  show "recs (ext (snd (getEventRole c e s))) i = Some r"
    using rec by (simp add: getEventRole_keeps [OF laws])
  show "recs (ext (snd (run c s))) i = Some r"
    by (rule run_keeps [OF laws rec])
next
  assume a: "ev_guild e = Some g \<and>
          fst (findScheduledEvent c (ev_id e) (ext s)) = Inr (Some d) \<and>
          (fst (roles_fetch c g (roleId d) (snd (findScheduledEvent c (ev_id e) (ext s)))) =
             Inr None \<or>
           fst (roles_fetch c g (roleId d) (snd (findScheduledEvent c (ev_id e) (ext s)))) =
             Inl err)"
  then have g: "ev_guild e = Some g"
    and f: "fst (findScheduledEvent c (ev_id e) (ext s)) = Inr (Some d)"
    by simp_all
  note p = processEvent_found [OF g f]
  show "fst (processEvent c e s) = Inr (Some e)"
    by (simp add: p)
  show "filter isRolesCreate (new_calls (processEvent c e) s) = []"
    by (simp add: p new_calls_def)
  show "filter isDbCreate (new_calls (processEvent c e) s) = []"
    by (simp add: p new_calls_def)
  show "fst (getEventRole c e s) = Inr None"
    using a
    by (auto simp add: getEventRole_def getEventRoleId_result io_defs falsy_def
          split: option.splits sum.splits prod.splits)
qed

text \<open>On the reference world where \<open>standup\<close> is recorded with role \<open>R\<close> and the guild has
  lost that role: the record stays through the pass and the batch, \<open>processEvent\<close>
  returns the event and the guild still has no role, and \<open>getEventRole\<close> gives null.\<close>

theorem record_immutable_witness:
  "store_laws ref_container store \<and>
   store (ext (start world_role_deleted)) ''e1'' = Some ''R'' \<and>
   ev_guild standup = Some acm \<and>
   fst (findScheduledEvent ref_container (ev_id standup) (ext (start world_role_deleted))) =
     Inr (Some standup_record) \<and>
   fst (roles_fetch ref_container acm (roleId standup_record)
         (snd (findScheduledEvent ref_container (ev_id standup)
           (ext (start world_role_deleted))))) = Inr None \<and>
   store (ext (snd (processEvent ref_container standup (start world_role_deleted)))) ''e1'' =
     Some ''R'' \<and>
   store (ext (snd (batchProcessEvents ref_container batch3 (start world_role_deleted)))) ''e1'' =
     Some ''R'' \<and>
   store (ext (snd (run ref_container (start world_role_deleted)))) ''e1'' = Some ''R'' \<and>
   fst (processEvent ref_container standup (start world_role_deleted)) = Inr (Some standup) \<and>
   guild_roles (ext (snd (processEvent ref_container standup (start world_role_deleted)))) = [] \<and>
   fst (getEventRole ref_container standup (start world_role_deleted)) = Inr None"
proof -
  let ?s = "start world_role_deleted"
  have h1: "store (ext ?s) ''e1'' = Some ''R''"
    by code_simp
  have h2: "ev_guild standup = Some acm"
    by code_simp
  have h3: "fst (findScheduledEvent ref_container (ev_id standup) (ext ?s)) =
     Inr (Some standup_record)"
    by code_simp
  have h4: "fst (roles_fetch ref_container acm (roleId standup_record)
         (snd (findScheduledEvent ref_container (ev_id standup) (ext ?s)))) = Inr None"
    by code_simp
  have v: "guild_roles (ext (snd (processEvent ref_container standup ?s))) = []"
    by code_simp
  note a = record_immutable [OF ref_store_laws h1, of standup batch3 "''e1''" acm standup_record
      "Error ''role fetch failed''"]
  show ?thesis
    using a ref_store_laws h1 h2 h3 h4 v by simp
qed

end
